theory Spec2Isabelle
  imports Complex_Main
begin

section \<open>JavaScript values used by the detectors\<close>

text \<open>
  A JavaScript \<open>number\<close> that may be \<open>NaN\<close> is a \<open>real option\<close>, \<open>None\<close> being
  \<open>NaN\<close>: every comparison with \<open>NaN\<close> is false and every sum with it is \<open>NaN\<close>.
  A finite number is the real that the double stands for. A parsed integer, and the
  sum, the quotient and the product that the MEV detector computes before it compares,
  are rounded to the nearest double, ties to even (\<open>round_double\<close>). Halving and
  doubling a threshold are exact on doubles and are written without rounding; the
  confidence of a gas-anomaly alert is the exact value of its expression, of which the
  code stores the nearest double. Overflow to an infinity (a magnitude of \<open>2 ^ 1024\<close>
  or more, a price of more than 256 hexadecimal digits) is outside the model. The
  configured thresholds are finite numbers (\<open>real\<close>).
\<close>

type_synonym number = "real option"

text \<open>The number of binary digits of a natural number.\<close>

function bit_length :: "nat \<Rightarrow> nat" where
  "bit_length n = (if n = 0 then 0 else Suc (bit_length (n div 2)))"
  by pat_completeness auto
termination
  by (relation "measure (\<lambda>n. n)") auto

declare bit_length.simps [simp del]

definition pow2 :: "int \<Rightarrow> real" where
  "pow2 k = (if 0 \<le> k then 2 ^ nat k else 1 / 2 ^ nat (- k))"

text \<open>The binary exponent \<open>e\<close> of a positive real \<open>x\<close>: \<open>2 ^ e \<le> x < 2 ^ (e + 1)\<close>.\<close>

definition exponent_of :: "real \<Rightarrow> int" where
  "exponent_of x =
     (if 1 \<le> x then int (bit_length (nat \<lfloor>x\<rfloor>)) - 1
      else - int (bit_length (nat (\<lceil>1 / x\<rceil> - 1))))"

text \<open>The nearest integer, the even one of two that are equally near.\<close>

definition round_half_even :: "real \<Rightarrow> int" where
  "round_half_even q =
     (let f = \<lfloor>q\<rfloor> in
      if q - of_int f < 1 / 2 then f
      else if q - of_int f > 1 / 2 then f + 1
      else if even f then f else f + 1)"

text \<open>
  The nearest IEEE 754 binary64 number: 53 significant binary digits, so the spacing of
  the doubles around \<open>x\<close> is \<open>2 ^ (e - 52)\<close> for the exponent \<open>e\<close> of \<open>x\<close>, and
  \<open>2 ^ (- 1074)\<close> below the smallest normal number \<open>2 ^ (- 1022)\<close>.
\<close>

definition round_double :: "real \<Rightarrow> real" where
  "round_double x =
     (if x = 0 then 0
      else
        (let a = \<bar>x\<bar>;
             e = max (exponent_of a) (- 1022);
             u = pow2 (e - 52)
         in sgn x * (of_int (round_half_even (a / u)) * u)))"

definition is_space :: "char \<Rightarrow> bool" where
  "is_space c = (c \<in> set [CHR '' '', CHR 0x09, CHR 0x0A, CHR 0x0B, CHR 0x0C, CHR 0x0D])"

definition hex_digit :: "char \<Rightarrow> nat option" where
  "hex_digit c =
     (let n = (of_char c :: nat) in
      if 48 \<le> n \<and> n \<le> 57 then Some (n - 48)
      else if 97 \<le> n \<and> n \<le> 102 then Some (n - 87)
      else if 65 \<le> n \<and> n \<le> 70 then Some (n - 55)
      else None)"

text \<open>The digits of the longest prefix of hexadecimal digits.\<close>

fun hex_prefix :: "string \<Rightarrow> nat list" where
  "hex_prefix [] = []"
| "hex_prefix (c # cs) = (case hex_digit c of None \<Rightarrow> [] | Some d \<Rightarrow> d # hex_prefix cs)"

definition hex_value :: "nat list \<Rightarrow> nat" where
  "hex_value ds = foldl (\<lambda>acc d. 16 * acc + d) 0 ds"

definition strip_0x :: "string \<Rightarrow> string" where
  "strip_0x s =
     (case s of
        c # d # r \<Rightarrow> if c = CHR ''0'' \<and> (d = CHR ''x'' \<or> d = CHR ''X'') then r else s
      | _ \<Rightarrow> s)"

text \<open>
  \<open>parseInt(s, 16)\<close>: leading white space is skipped, one sign is read, a \<open>0x\<close> prefix is
  dropped, and the longest prefix of hexadecimal digits is the value, rounded to a
  double; with no digit the result is \<open>NaN\<close>.
\<close>

definition parseInt16 :: "string \<Rightarrow> number" where
  "parseInt16 s =
     (let t = dropWhile is_space s;
          neg = (t \<noteq> [] \<and> hd t = CHR ''-'');
          u = (if t \<noteq> [] \<and> (hd t = CHR ''-'' \<or> hd t = CHR ''+'') then tl t else t);
          ds = hex_prefix (strip_0x u)
      in if ds = [] then None
         else Some (round_double (if neg then - real (hex_value ds) else real (hex_value ds))))"

section \<open>Data model (types/index.ts)\<close>

text \<open>
  \<open>RealTransaction\<close>. The fields \<open>from\<close>, \<open>to\<close> and \<open>value\<close> carry a suffix. \<open>to\<close> is
  \<open>null\<close> for a contract creation (\<open>None\<close>); \<open>timestamp\<close> is
  \<open>parseInt(block.timestamp, 16) * 1000\<close>, a number that may be \<open>NaN\<close>.
\<close>

record RealTransaction =
  hash :: string
  blockNumber :: string
  from_addr :: string
  to_addr :: "string option"
  value_hex :: string
  gas :: string
  gasPrice :: string
  input :: string
  timestamp :: number

text \<open>The fields of \<open>DetectorConfig\<close> that the modelled code reads.\<close>

record DetectorConfig =
  gasAnomalyThreshold :: real
  flashLoanMinValue :: real
  hive_apiKey :: "string option"
  hive_enabled :: bool
  mitigation_enabled :: bool
  autoFreeze :: bool
  emergencyPause :: bool

datatype threat_type =
  rug_pull | exploit | suspicious_pattern | flash_loan_attack | liquidity_drain
  | mev_attack | sandwich_attack

datatype severity_level = low | medium | high | critical

text \<open>The \<open>details\<close> payload is an object literal: a list of keys with their values.\<close>

datatype detail =
    DNum real
  | DNaN
  | DInfinity
  | DNegInfinity
  | DStr string
  | DBool bool
  | DList "string list"
  | DObj "(string \<times> detail) list"

text \<open>
  \<open>ThreatAlert\<close>. The identifier is the template
  \<open>`<detector>_${tx.hash}_${Date.now()}`\<close>, kept as its three parts.
\<close>

record ThreatAlert =
  alert_id :: "string \<times> string \<times> int"
  alert_type :: threat_type
  severity :: severity_level
  contractAddress :: string
  transactionHash :: string
  alert_timestamp :: number
  alert_blockNumber :: number
  details :: "(string \<times> detail) list"
  confidence :: real
  mitigated :: bool

text \<open>
  JavaScript truthiness of a string that may be \<open>null\<close>: \<open>null\<close> and the empty string
  are falsy. \<open>tx.to || ''\<close> and the string that \<open>'-' + tx.to\<close> appends follow.
\<close>

definition truthy :: "string option \<Rightarrow> bool" where
  "truthy s = (case s of None \<Rightarrow> False | Some a \<Rightarrow> a \<noteq> [])"

definition or_empty :: "string option \<Rightarrow> string" where
  "or_empty s = (case s of None \<Rightarrow> [] | Some a \<Rightarrow> a)"

definition to_string :: "string option \<Rightarrow> string" where
  "to_string s = (case s of None \<Rightarrow> ''null'' | Some a \<Rightarrow> a)"

text \<open>The quotient \<open>x / y\<close> of two finite numbers, as JavaScript gives it for \<open>y = 0\<close>.\<close>

definition js_div :: "real \<Rightarrow> real \<Rightarrow> detail" where
  "js_div x y =
     (if y \<noteq> 0 then DNum (round_double (x / y))
      else if x = 0 then DNaN else if x > 0 then DInfinity else DNegInfinity)"

section \<open>LocalThreatDetector (detectors/local-threat-detector.ts)\<close>

record detector_state =
  recentTransactions :: "string \<rightharpoonup> RealTransaction list"
  contractInteractions :: "string \<rightharpoonup> nat"

definition initial_detector :: detector_state where
  "initial_detector = \<lparr> recentTransactions = Map.empty, contractInteractions = Map.empty \<rparr>"

definition pair_key :: "RealTransaction \<Rightarrow> string" where
  "pair_key tx = from_addr tx @ ''-'' @ to_string (to_addr tx)"

text \<open>\<open>this.recentTransactions.get(key) || []\<close>.\<close>

definition window :: "detector_state \<Rightarrow> string \<Rightarrow> RealTransaction list" where
  "window st k = (case recentTransactions st k of None \<Rightarrow> [] | Some l \<Rightarrow> l)"

text \<open>\<open>this.contractInteractions.get(tx.to) || 0\<close>.\<close>

definition interactions :: "detector_state \<Rightarrow> string \<Rightarrow> nat" where
  "interactions st a = (case contractInteractions st a of None \<Rightarrow> 0 | Some c \<Rightarrow> c)"

text \<open>\<open>txList.push(tx); if (txList.length > 10) txList.shift()\<close>.\<close>

definition push_capped :: "RealTransaction list \<Rightarrow> RealTransaction \<Rightarrow> RealTransaction list" where
  "push_capped txList tx =
     (let pushed = txList @ [tx] in if length pushed > 10 then tl pushed else pushed)"

definition trackTransaction :: "detector_state \<Rightarrow> RealTransaction \<Rightarrow> detector_state" where
  "trackTransaction st tx =
     (let key = pair_key tx;
          m1 = (if recentTransactions st key = None
                then (recentTransactions st)(key \<mapsto> []) else recentTransactions st);
          txList = (case m1 key of None \<Rightarrow> [] | Some l \<Rightarrow> l);
          m2 = m1(key \<mapsto> push_capped txList tx);
          c2 = (if truthy (to_addr tx) \<and> input tx \<noteq> ''0x''
                then (contractInteractions st)
                       (or_empty (to_addr tx) \<mapsto> interactions st (or_empty (to_addr tx)) + 1)
                else contractInteractions st)
      in \<lparr> recentTransactions = m2, contractInteractions = c2 \<rparr>)"

definition detectGasAnomalies :: "DetectorConfig \<Rightarrow> int \<Rightarrow> RealTransaction \<Rightarrow> ThreatAlert list" where
  "detectGasAnomalies cfg now tx =
     (case parseInt16 (gasPrice tx) of
        None \<Rightarrow> []
      | Some g \<Rightarrow>
          if g > gasAnomalyThreshold cfg then
            [\<lparr> alert_id = (''gas_anomaly'', hash tx, now),
               alert_type = suspicious_pattern,
               severity = (if g > gasAnomalyThreshold cfg * 2 then high else medium),
               contractAddress = or_empty (to_addr tx),
               transactionHash = hash tx,
               alert_timestamp = timestamp tx,
               alert_blockNumber = parseInt16 (blockNumber tx),
               details = [(''gasPrice'', DNum g),
                          (''threshold'', DNum (gasAnomalyThreshold cfg)),
                          (''suspiciousPattern'', DStr ''extremely_high_gas_price''),
                          (''possibleMEV'', DBool True)],
               confidence = (if gasAnomalyThreshold cfg = 0 then 0.9
                             else min 0.9 (g / gasAnomalyThreshold cfg * 0.3)),
               mitigated = False \<rparr>]
          else [])"

definition detectLargeValueTransfers :: "DetectorConfig \<Rightarrow> int \<Rightarrow> RealTransaction \<Rightarrow> ThreatAlert list" where
  "detectLargeValueTransfers cfg now tx =
     (case parseInt16 (value_hex tx) of
        None \<Rightarrow> []
      | Some v \<Rightarrow>
          if v > flashLoanMinValue cfg then
            [\<lparr> alert_id = (''large_transfer'', hash tx, now),
               alert_type = suspicious_pattern,
               severity = (if v > flashLoanMinValue cfg * 10 then high else medium),
               contractAddress = or_empty (to_addr tx),
               transactionHash = hash tx,
               alert_timestamp = timestamp tx,
               alert_blockNumber = parseInt16 (blockNumber tx),
               details = [(''value'', DStr (value_hex tx)),
                          (''valueWei'', DNum v),
                          (''suspiciousPattern'', DStr ''large_value_transfer''),
                          (''inputDataSize'', DNum (real (length (input tx))))],
               confidence = 0.6,
               mitigated = False \<rparr>]
          else [])"

text \<open>
  \<open>recentTxs.reduce((sum, rtx) => sum + parseInt(rtx.gasPrice, 16), 0) / recentTxs.length\<close>:
  one unparsable gas price makes the sum \<open>NaN\<close>; the empty list gives \<open>0 / 0\<close>. Every
  sum and the quotient are rounded.
\<close>

definition add_gas :: "number \<Rightarrow> RealTransaction \<Rightarrow> number" where
  "add_gas acc rtx =
     (case acc of None \<Rightarrow> None
      | Some s \<Rightarrow>
          (case parseInt16 (gasPrice rtx) of
             None \<Rightarrow> None
           | Some g \<Rightarrow> Some (round_double (s + g))))"

definition avgGasPrice :: "RealTransaction list \<Rightarrow> number" where
  "avgGasPrice recentTxs =
     (if recentTxs = [] then None
      else (case foldl add_gas (Some 0) recentTxs of
              None \<Rightarrow> None
            | Some s \<Rightarrow> Some (round_double (s / real (length recentTxs)))))"

definition detectMEVActivity ::
  "DetectorConfig \<Rightarrow> int \<Rightarrow> detector_state \<Rightarrow> RealTransaction \<Rightarrow> ThreatAlert list" where
  "detectMEVActivity cfg now st tx =
     (case parseInt16 (gasPrice tx) of
        None \<Rightarrow> []
      | Some g \<Rightarrow>
          if g > gasAnomalyThreshold cfg * 0.5 \<and> length (input tx) > 10 then
            (let recentTxs = window st (pair_key tx) in
             if length recentTxs > 2 then
               (case avgGasPrice recentTxs of
                  None \<Rightarrow> []
                | Some avg \<Rightarrow>
                    if g > round_double (avg * 3) then
                      [\<lparr> alert_id = (''mev_activity'', hash tx, now),
                         alert_type = mev_attack,
                         severity = medium,
                         contractAddress = or_empty (to_addr tx),
                         transactionHash = hash tx,
                         alert_timestamp = timestamp tx,
                         alert_blockNumber = parseInt16 (blockNumber tx),
                         details = [(''gasPrice'', DNum g),
                                    (''avgGasPrice'', DNum avg),
                                    (''gasPriceMultiplier'', js_div g avg),
                                    (''suspiciousPattern'', DStr ''potential_mev_activity'')],
                         confidence = 0.7,
                         mitigated = False \<rparr>]
                    else [])
             else [])
          else [])"

definition detectSuspiciousPatterns :: "int \<Rightarrow> RealTransaction \<Rightarrow> ThreatAlert list" where
  "detectSuspiciousPatterns now tx =
     (if \<not> truthy (to_addr tx) \<and> length (input tx) > 1000 then
        [\<lparr> alert_id = (''suspicious_contract'', hash tx, now),
           alert_type = suspicious_pattern,
           severity = low,
           contractAddress = [],
           transactionHash = hash tx,
           alert_timestamp = timestamp tx,
           alert_blockNumber = parseInt16 (blockNumber tx),
           details = [(''suspiciousPattern'', DStr ''large_contract_creation''),
                      (''inputSize'', DNum (real (length (input tx))))],
           confidence = 0.4,
           mitigated = False \<rparr>]
      else [])"

definition detectContractBehavior ::
  "int \<Rightarrow> detector_state \<Rightarrow> RealTransaction \<Rightarrow> ThreatAlert list" where
  "detectContractBehavior now st tx =
     (if truthy (to_addr tx) then
        (let n = interactions st (or_empty (to_addr tx)) in
         if n > 100 then
           [\<lparr> alert_id = (''high_frequency_contract'', hash tx, now),
              alert_type = suspicious_pattern,
              severity = low,
              contractAddress = or_empty (to_addr tx),
              transactionHash = hash tx,
              alert_timestamp = timestamp tx,
              alert_blockNumber = parseInt16 (blockNumber tx),
              details = [(''suspiciousPattern'', DStr ''high_frequency_interactions''),
                         (''interactionCount'', DNum (real n))],
              confidence = 0.5,
              mitigated = False \<rparr>]
         else [])
      else [])"

text \<open>
  \<open>detectThreats\<close>: the transaction is tracked first, then the five detectors run on the
  updated state. \<open>clock i\<close> is the reading of \<open>Date.now()\<close> taken by the \<open>i\<close>-th detector.
\<close>

definition detectThreats ::
  "DetectorConfig \<Rightarrow> (nat \<Rightarrow> int) \<Rightarrow> detector_state \<Rightarrow> RealTransaction
     \<Rightarrow> ThreatAlert list \<times> detector_state" where
  "detectThreats cfg clock st tx =
     (let st' = trackTransaction st tx in
      (detectGasAnomalies cfg (clock 0) tx
       @ detectLargeValueTransfers cfg (clock 1) tx
       @ detectMEVActivity cfg (clock 2) st' tx
       @ detectSuspiciousPatterns (clock 3) tx
       @ detectContractBehavior (clock 4) st' tx, st'))"

text \<open>
  The detector processing the transactions of the blocks in their order, each with the
  clock readings of its own call.
\<close>

fun process_all ::
  "DetectorConfig \<Rightarrow> detector_state \<Rightarrow> ((nat \<Rightarrow> int) \<times> RealTransaction) list
     \<Rightarrow> detector_state" where
  "process_all cfg st [] = st"
| "process_all cfg st ((clock, tx) # calls) =
     process_all cfg (snd (detectThreats cfg clock st tx)) calls"

text \<open>JavaScript \<open>n > x\<close> for a number that may be \<open>NaN\<close>.\<close>

definition exceeds :: "number \<Rightarrow> real \<Rightarrow> bool" where
  "exceeds n x = (case n of None \<Rightarrow> False | Some v \<Rightarrow> v > x)"

text \<open>The alerts of one detector among those of a call, by the prefix of their identifier.\<close>

definition alerts_of :: "string \<Rightarrow> ThreatAlert list \<Rightarrow> ThreatAlert list" where
  "alerts_of name alerts = filter (\<lambda>a. fst (alert_id a) = name) alerts"

text \<open>A transaction with the given parties, gas price and payload, for the examples.\<close>

definition example_tx :: "string \<Rightarrow> string option \<Rightarrow> string \<Rightarrow> string \<Rightarrow> RealTransaction" where
  "example_tx sender recipient price payload =
     \<lparr> hash = ''0xh'', blockNumber = ''0x10'', from_addr = sender, to_addr = recipient,
       value_hex = ''0x0'', gas = ''0x5208'', gasPrice = price, input = payload,
       timestamp = Some 1000 \<rparr>"

definition example_cfg :: DetectorConfig where
  "example_cfg =
     \<lparr> gasAnomalyThreshold = 120000000000, flashLoanMinValue = 30000000000000000000,
       hive_apiKey = Some ''key'', hive_enabled = True, mitigation_enabled = True,
       autoFreeze = False, emergencyPause = False \<rparr>"

text \<open>Comparisons and (rounded) products of numbers that may be \<open>NaN\<close>.\<close>

definition num_gt :: "number \<Rightarrow> number \<Rightarrow> bool" where
  "num_gt a b =
     (case a of None \<Rightarrow> False | Some x \<Rightarrow> (case b of None \<Rightarrow> False | Some y \<Rightarrow> x > y))"

definition num_times :: "number \<Rightarrow> real \<Rightarrow> number" where
  "num_times a c = (case a of None \<Rightarrow> None | Some x \<Rightarrow> Some (round_double (x * c)))"

text \<open>
  \<open>tx.input\<close> is the payload as the node gives it: the characters \<open>0x\<close> and two
  hexadecimal digits for every byte. The number of bytes of such a string.
\<close>

definition payload_bytes :: "string \<Rightarrow> nat" where
  "payload_bytes inp = (length inp - 2) div 2"

section \<open>HiveIntelligenceService (services/hive-intelligence.ts)\<close>

text \<open>
  \<open>String.prototype.includes\<close> and \<open>toLowerCase\<close> (on the letters A to Z; the response
  is taken to be ASCII text).
\<close>

fun str_includes :: "string \<Rightarrow> string \<Rightarrow> bool" where
  "str_includes [] pat = (pat = [])"
| "str_includes (c # cs) pat = (take (length pat) (c # cs) = pat \<or> str_includes cs pat)"

definition lower_char :: "char \<Rightarrow> char" where
  "lower_char c =
     (case map_of (zip ''ABCDEFGHIJKLMNOPQRSTUVWXYZ'' ''abcdefghijklmnopqrstuvwxyz'') c of
        None \<Rightarrow> c
      | Some l \<Rightarrow> l)"

definition toLowerCase :: "string \<Rightarrow> string" where
  "toLowerCase s = map lower_char s"

record risk_info =
  risk :: real
  indicators :: "string list"

record HiveAnalysis =
  threats :: "string list"
  dataSources :: "string list"
  rawResponse :: string
  rugPull :: "risk_info option"
  flashLoan :: "risk_info option"
  mev :: "risk_info option"
  overallRisk :: real
  analysis_confidence :: real

text \<open>
  The body of the HTTP answer (\<open>response.data\<close>, of type \<open>any\<close>): no body at all, or a
  body whose \<open>response\<close> field is absent (or another falsy value), a string, or a truthy
  value that is not a string; and its \<open>data_sources\<close> field when present.
\<close>

datatype response_field = Absent | Text string | NonText

datatype search_data = NoBody | Body response_field "string list option"

datatype js_error = TypeError | RangeError | RequestError "nat option"

definition extractRiskScore :: "string \<Rightarrow> string \<Rightarrow> real" where
  "extractRiskScore text threatType =
     (if str_includes text ''high risk'' \<or> str_includes text ''critical'' then 0.9
      else if str_includes text ''medium risk'' \<or> str_includes text ''moderate'' then 0.6
      else if str_includes text ''low risk'' \<or> str_includes text ''minimal'' then 0.3
      else if str_includes text ''suspicious'' \<or> str_includes text ''concerning'' then 0.7
      else if str_includes text ''no risk'' \<or> str_includes text ''safe'' then 0.1
      else if str_includes text threatType then 0.5 else 0.0)"

definition extractIndicators :: "string \<Rightarrow> string list \<Rightarrow> string list" where
  "extractIndicators text keywords = filter (\<lambda>keyword. str_includes text keyword) keywords"

definition extractOverallRisk :: "string \<Rightarrow> real" where
  "extractOverallRisk text =
     (if str_includes text ''high risk'' \<or> str_includes text ''dangerous'' then 0.8
      else if str_includes text ''medium risk'' \<or> str_includes text ''moderate risk'' then 0.5
      else if str_includes text ''low risk'' \<or> str_includes text ''minimal risk'' then 0.2
      else 0.3)"

definition extractConfidence :: "string \<Rightarrow> real" where
  "extractConfidence text =
     (if str_includes text ''confident'' \<or> str_includes text ''certain'' then 0.9
      else if str_includes text ''likely'' \<or> str_includes text ''probable'' then 0.7
      else if str_includes text ''possible'' \<or> str_includes text ''might'' then 0.5
      else if str_includes text ''uncertain'' \<or> str_includes text ''unclear'' then 0.3
      else 0.6)"

text \<open>
  \<open>parseSearchResponse\<close>. A falsy body or \<open>response\<close> field gives \<open>null\<close>; on a truthy
  \<open>response\<close> that is not a string, \<open>searchData.response.toLowerCase()\<close> throws a
  \<open>TypeError\<close>. The transaction argument is not read.
\<close>

definition parse_text :: "string \<Rightarrow> string list option \<Rightarrow> HiveAnalysis" where
  "parse_text raw sources =
     (let response = toLowerCase raw in
      \<lparr> threats = [],
        dataSources = (case sources of None \<Rightarrow> [] | Some ds \<Rightarrow> ds),
        rawResponse = raw,
        rugPull =
          (if str_includes response ''rug pull'' \<or> str_includes response ''exit scam''
           then Some \<lparr> risk = extractRiskScore response ''rug pull'',
                       indicators = extractIndicators response
                                      [''rug pull'', ''exit scam'', ''liquidity''] \<rparr>
           else None),
        flashLoan =
          (if str_includes response ''flash loan'' \<or> str_includes response ''arbitrage''
           then Some \<lparr> risk = extractRiskScore response ''flash loan'',
                       indicators = extractIndicators response
                                      [''flash loan'', ''arbitrage'', ''exploit''] \<rparr>
           else None),
        mev =
          (if str_includes response ''mev'' \<or> str_includes response ''front-running''
              \<or> str_includes response ''sandwich''
           then Some \<lparr> risk = extractRiskScore response ''mev'',
                       indicators = extractIndicators response
                                      [''mev'', ''front-running'', ''sandwich''] \<rparr>
           else None),
        overallRisk = extractOverallRisk response,
        analysis_confidence = extractConfidence response \<rparr>)"

definition parseSearchResponse ::
  "search_data \<Rightarrow> RealTransaction option \<Rightarrow> js_error + HiveAnalysis option" where
  "parseSearchResponse searchData tx =
     (case searchData of
        NoBody \<Rightarrow> Inr None
      | Body Absent sources \<Rightarrow> Inr None
      | Body NonText sources \<Rightarrow> Inl TypeError
      | Body (Text raw) sources \<Rightarrow>
          if raw = [] then Inr None else Inr (Some (parse_text raw sources)))"

record hive_state =
  requestTimestamps :: "int list"
  requestCount :: nat

definition initial_hive :: hive_state where
  "initial_hive = \<lparr> requestTimestamps = [], requestCount = 0 \<rparr>"

definition retryCount :: nat where "retryCount = 2"

definition retryDelay :: int where "retryDelay = 1000"

definition maxRequestsPerMinute :: nat where "maxRequestsPerMinute = 18"

text \<open>\<open>canMakeRequest\<close>; \<open>now\<close> is the reading of \<open>Date.now()\<close>.\<close>

definition canMakeRequest :: "int \<Rightarrow> hive_state \<Rightarrow> bool \<times> hive_state" where
  "canMakeRequest now st =
     (let oneMinuteAgo = now - 60000;
          kept = filter (\<lambda>timestamp. timestamp > oneMinuteAgo) (requestTimestamps st)
      in (length kept < maxRequestsPerMinute, st\<lparr> requestTimestamps := kept \<rparr>))"

definition recordRequest :: "int \<Rightarrow> hive_state \<Rightarrow> hive_state" where
  "recordRequest now st =
     st\<lparr> requestTimestamps := requestTimestamps st @ [now],
         requestCount := requestCount st + 1 \<rparr>"

text \<open>
  What a call does to its surroundings, in order: the admission check with its clock
  reading, each HTTP request with its attempt number, each wait in milliseconds, each
  timestamp recorded. Console output is not modelled.
\<close>

datatype hive_event = LimiterCheck int | Post nat | Wait int | Recorded int

text \<open>
  The network: \<open>axios.post\<close> throws (with the status of the answer, if there was one) or
  returns a body. \<open>net k\<close> is the outcome of the \<open>k\<close>-th attempt together with the
  reading of \<open>Date.now()\<close> that \<open>recordRequest\<close> takes after the answer.
\<close>

datatype http_result = Rejected "nat option" | Answered search_data

text \<open>The eligibility gate of \<open>analyzeTransaction\<close>.\<close>

definition eligible :: "DetectorConfig \<Rightarrow> RealTransaction \<Rightarrow> bool" where
  "eligible cfg tx =
     (let isHighValue = exceeds (parseInt16 (value_hex tx)) (flashLoanMinValue cfg);
          isHighGas = exceeds (parseInt16 (gasPrice tx)) (gasAnomalyThreshold cfg);
          hasComplexInput = (length (input tx) > 100)
      in \<not> (\<not> isHighValue \<and> \<not> isHighGas \<and> \<not> hasComplexInput))"

text \<open>
  The body of the \<open>try\<close> block of one attempt: the request, then \<open>recordRequest\<close>, then
  the parse. A state change made before a throw stays.
\<close>

definition try_request ::
  "RealTransaction \<Rightarrow> (nat \<Rightarrow> http_result \<times> int) \<Rightarrow> nat \<Rightarrow> hive_state
     \<Rightarrow> (js_error + HiveAnalysis option) \<times> hive_state \<times> hive_event list" where
  "try_request tx net attempt st =
     (case fst (net attempt) of
        Rejected status \<Rightarrow> (Inl (RequestError status), st, [Post attempt])
      | Answered body \<Rightarrow>
          (parseSearchResponse body (Some tx), recordRequest (snd (net attempt)) st,
           [Post attempt, Recorded (snd (net attempt))]))"

text \<open>
  \<open>for (let attempt = 1; attempt <= this.retryCount; attempt++) { try ... catch ... }\<close>,
  entered at \<open>attempt\<close>.
\<close>

function retry_loop ::
  "RealTransaction \<Rightarrow> (nat \<Rightarrow> http_result \<times> int) \<Rightarrow> nat \<Rightarrow> hive_state
     \<Rightarrow> HiveAnalysis option \<times> hive_state \<times> hive_event list" where
  "retry_loop tx net attempt st =
     (if attempt \<le> retryCount then
        (case try_request tx net attempt st of
           (Inr result, st', ev) \<Rightarrow> (result, st', ev)
         | (Inl err, st', ev) \<Rightarrow>
             if attempt = retryCount then (None, st', ev)
             else (case retry_loop tx net (attempt + 1) st' of
                     (result, st'', ev') \<Rightarrow>
                       (result, st'', ev @ [Wait (retryDelay * int attempt)] @ ev')))
      else (None, st, []))"
  by pat_completeness auto
termination
  by (relation "measure (\<lambda>(tx, net, attempt, st). Suc retryCount - attempt)") auto

declare retry_loop.simps [simp del]

text \<open>
  \<open>analyzeTransaction\<close>: \<open>Inr\<close> is a returned value (\<open>None\<close> is \<open>null\<close>), \<open>Inl\<close> would be
  an exception leaving the call.
\<close>

definition analyzeTransaction ::
  "DetectorConfig \<Rightarrow> RealTransaction \<Rightarrow> int \<Rightarrow> (nat \<Rightarrow> http_result \<times> int) \<Rightarrow> hive_state
     \<Rightarrow> (js_error + HiveAnalysis option) \<times> hive_state \<times> hive_event list" where
  "analyzeTransaction cfg tx now net st =
     (if \<not> hive_enabled cfg \<or> \<not> truthy (hive_apiKey cfg) then (Inr None, st, [])
      else
        (case canMakeRequest now st of
           (admitted, st1) \<Rightarrow>
             if \<not> admitted then (Inr None, st1, [LimiterCheck now])
             else if \<not> eligible cfg tx then (Inr None, st1, [LimiterCheck now])
             else (case retry_loop tx net 1 st1 of
                     (result, st2, ev) \<Rightarrow> (Inr result, st2, LimiterCheck now # ev))))"

text \<open>
  A sequence of calls, each with its transaction, the clock reading of its admission
  check and its network; the events of all calls in order.
\<close>

fun analyze_all ::
  "DetectorConfig \<Rightarrow> hive_state \<Rightarrow> (RealTransaction \<times> int \<times> (nat \<Rightarrow> http_result \<times> int)) list
     \<Rightarrow> hive_state \<times> hive_event list" where
  "analyze_all cfg st [] = (st, [])"
| "analyze_all cfg st ((tx, now, net) # calls) =
     (case analyzeTransaction cfg tx now net st of
        (result, st', ev) \<Rightarrow>
          (case analyze_all cfg st' calls of (st'', evs) \<Rightarrow> (st'', ev @ evs)))"

text \<open>The timestamps recorded and the attempts of the requests sent, among the events.\<close>

fun recorded :: "hive_event list \<Rightarrow> int list" where
  "recorded [] = []"
| "recorded (Recorded t # ev) = t # recorded ev"
| "recorded (e # ev) = recorded ev"

fun posts :: "hive_event list \<Rightarrow> nat list" where
  "posts [] = []"
| "posts (Post k # ev) = k # posts ev"
| "posts (e # ev) = posts ev"

text \<open>
  The events of one attempt, and the outcomes of an attempt by what follows them: the
  attempt throws (the request is rejected, or the parse of the answer throws), or its
  answer is empty (the parse gives \<open>null\<close>), or it carries no result at all.
\<close>

definition attempt_events :: "(nat \<Rightarrow> http_result \<times> int) \<Rightarrow> nat \<Rightarrow> hive_event list" where
  "attempt_events net k =
     (case fst (net k) of
        Rejected status \<Rightarrow> [Post k]
      | Answered body \<Rightarrow> [Post k, Recorded (snd (net k))])"

definition throws :: "http_result \<Rightarrow> bool" where
  "throws r =
     (case r of Rejected status \<Rightarrow> True
      | Answered body \<Rightarrow> (case body of Body NonText sources \<Rightarrow> True | _ \<Rightarrow> False))"

definition empty_answer :: "http_result \<Rightarrow> bool" where
  "empty_answer r =
     (case r of Rejected status \<Rightarrow> False
      | Answered body \<Rightarrow>
          (case body of NoBody \<Rightarrow> True
           | Body field sources \<Rightarrow>
               (case field of Absent \<Rightarrow> True | Text raw \<Rightarrow> raw = [] | NonText \<Rightarrow> False)))"

definition no_result :: "http_result \<Rightarrow> bool" where
  "no_result r = (throws r \<or> empty_answer r)"

text \<open>The recorded timestamps inside the window of 60 seconds that ends at \<open>T\<close>.\<close>

definition in_window :: "int \<Rightarrow> int list \<Rightarrow> int list" where
  "in_window T ts = filter (\<lambda>t. T - 60000 < t \<and> t \<le> T) ts"

text \<open>
  The clock never runs backwards: from \<open>t\<close> on, each call reads its admission time, then
  the times of the answers to its first and second attempt.
\<close>

fun clock_monotone ::
  "int \<Rightarrow> (RealTransaction \<times> int \<times> (nat \<Rightarrow> http_result \<times> int)) list \<Rightarrow> bool" where
  "clock_monotone t [] = True"
| "clock_monotone t ((tx, now, net) # calls) =
     (t \<le> now \<and> now \<le> snd (net 1) \<and> snd (net 1) \<le> snd (net 2)
      \<and> clock_monotone (snd (net 2)) calls)"

section \<open>ThreatProcessor (detectors/threat-processor.ts)\<close>

definition category_alert ::
  "string \<Rightarrow> threat_type \<Rightarrow> severity_level \<Rightarrow> RealTransaction \<Rightarrow> int \<Rightarrow> HiveAnalysis
     \<Rightarrow> risk_info \<Rightarrow> ThreatAlert" where
  "category_alert name ty sev tx now hiveAnalysis info =
     \<lparr> alert_id = (name, hash tx, now),
       alert_type = ty,
       severity = sev,
       contractAddress = or_empty (to_addr tx),
       transactionHash = hash tx,
       alert_timestamp = timestamp tx,
       alert_blockNumber = parseInt16 (blockNumber tx),
       details = [(''hiveAnalysis'', DObj [(''risk'', DNum (risk info)),
                                            (''indicators'', DList (indicators info))]),
                  (''indicators'', DList (indicators info)),
                  (''dataSources'', DList (dataSources hiveAnalysis)),
                  (''source'', DStr ''hive_intelligence'')],
       confidence = risk info,
       mitigated = False \<rparr>"

text \<open>
  \<open>processHiveThreats\<close>. \<open>clock i\<close> is the reading of \<open>Date.now()\<close> in the \<open>i\<close>-th block;
  \<open>hiveAnalysis.confidence || 0.6\<close> replaces a zero confidence.
\<close>

definition processHiveThreats ::
  "RealTransaction \<Rightarrow> (nat \<Rightarrow> int) \<Rightarrow> HiveAnalysis \<Rightarrow> ThreatAlert list" where
  "processHiveThreats tx clock hiveAnalysis =
     (let t1 = (case rugPull hiveAnalysis of
                  None \<Rightarrow> []
                | Some info \<Rightarrow>
                    if risk info > 0.5 then
                      [category_alert ''hive_rug_pull'' rug_pull
                         (if risk info > 0.8 then critical else high)
                         tx (clock 0) hiveAnalysis info]
                    else []);
          t2 = t1 @ (case flashLoan hiveAnalysis of
                  None \<Rightarrow> []
                | Some info \<Rightarrow>
                    if risk info > 0.6 then
                      [category_alert ''hive_flash_loan'' flash_loan_attack
                         (if risk info > 0.8 then critical else high)
                         tx (clock 1) hiveAnalysis info]
                    else []);
          t3 = t2 @ (case mev hiveAnalysis of
                  None \<Rightarrow> []
                | Some info \<Rightarrow>
                    if risk info > 0.6 then
                      [category_alert ''hive_mev'' mev_attack
                         (if risk info > 0.8 then high else medium)
                         tx (clock 2) hiveAnalysis info]
                    else [])
      in t3 @ (if overallRisk hiveAnalysis > 0.7 \<and> length t3 = 0 then
                 [\<lparr> alert_id = (''hive_suspicious'', hash tx, clock 3),
                    alert_type = suspicious_pattern,
                    severity = (if overallRisk hiveAnalysis > 0.8 then high else medium),
                    contractAddress = or_empty (to_addr tx),
                    transactionHash = hash tx,
                    alert_timestamp = timestamp tx,
                    alert_blockNumber = parseInt16 (blockNumber tx),
                    details = [(''overallRisk'', DNum (overallRisk hiveAnalysis)),
                               (''rawResponse'', DStr (rawResponse hiveAnalysis)),
                               (''dataSources'', DList (dataSources hiveAnalysis)),
                               (''source'', DStr ''hive_intelligence'')],
                    confidence = (if analysis_confidence hiveAnalysis = 0 then 0.6
                                  else analysis_confidence hiveAnalysis),
                    mitigated = False \<rparr>]
               else []))"

text \<open>
  \<open>analyzeThreatPatterns\<close>: the local detectors, then the enrichment; the alerts of an
  analysis are added when there is one. The \<open>catch\<close> returns the alerts found so far.
\<close>

definition analyzeThreatPatterns ::
  "DetectorConfig \<Rightarrow> (nat \<Rightarrow> int) \<Rightarrow> int \<Rightarrow> (nat \<Rightarrow> http_result \<times> int) \<Rightarrow> (nat \<Rightarrow> int)
     \<Rightarrow> detector_state \<times> hive_state \<Rightarrow> RealTransaction
     \<Rightarrow> ThreatAlert list \<times> (detector_state \<times> hive_state)" where
  "analyzeThreatPatterns cfg clock now net hive_clock st tx =
     (case detectThreats cfg clock (fst st) tx of
        (localThreats, dst) \<Rightarrow>
          (case analyzeTransaction cfg tx now net (snd st) of
             (Inl err, hst, ev) \<Rightarrow> (localThreats, (dst, hst))
           | (Inr None, hst, ev) \<Rightarrow> (localThreats, (dst, hst))
           | (Inr (Some hiveAnalysis), hst, ev) \<Rightarrow>
               (localThreats @ processHiveThreats tx hive_clock hiveAnalysis, (dst, hst))))"

text \<open>
  \<open>new Date(t).toISOString()\<close> throws a \<open>RangeError\<close> unless \<open>t\<close> is a time value: a
  number, not \<open>NaN\<close>, of magnitude at most 8.64e15.
\<close>

definition valid_date :: "number \<Rightarrow> bool" where
  "valid_date t = (case t of None \<Rightarrow> False | Some v \<Rightarrow> \<bar>v\<bar> \<le> 8640000000000000)"

text \<open>
  The calls a handled alert leads to: the dispatch to the notification channels
  (\<open>SocialAlertSystem.sendAlert\<close>, which catches the failures of its channels) with the
  alert as it is then, the mitigation hook, and the two simulated mitigation actions.
\<close>

datatype processor_event =
  SendAlert ThreatAlert | Mitigation ThreatAlert | FreezeAction | PauseAction

definition executeMitigation ::
  "DetectorConfig \<Rightarrow> ThreatAlert \<Rightarrow> ThreatAlert \<times> processor_event list" where
  "executeMitigation cfg threat =
     (let threat' = threat\<lparr> mitigated := True \<rparr> in
      (threat',
       [Mitigation threat]
       @ (if autoFreeze cfg then [FreezeAction] else [])
       @ (if emergencyPause cfg then [PauseAction] else [])
       @ [SendAlert threat']))"

text \<open>
  \<open>handleThreat\<close>: its first log line formats the timestamp of the alert and throws on an
  invalid one, before anything else is done.
\<close>

definition handleThreat ::
  "DetectorConfig \<Rightarrow> ThreatAlert \<Rightarrow> js_error + (ThreatAlert \<times> processor_event list)" where
  "handleThreat cfg threat =
     (if \<not> valid_date (alert_timestamp threat) then Inl RangeError
      else
        (let sent = (if severity threat = medium \<or> severity threat = high
                        \<or> severity threat = critical
                     then [SendAlert threat] else [])
         in if mitigation_enabled cfg \<and> severity threat = critical \<and> confidence threat > 0.8
            then (case executeMitigation cfg threat of
                    (threat', ev) \<Rightarrow> Inr (threat', sent @ ev))
            else Inr (threat, sent)))"

text \<open>The mitigation hook was invoked.\<close>

definition mitigation_invoked :: "processor_event list \<Rightarrow> bool" where
  "mitigation_invoked ev = (\<exists>a \<in> set ev. case a of Mitigation t \<Rightarrow> True | _ \<Rightarrow> False)"

text \<open>An alert of the given severity and confidence, for the examples.\<close>

definition example_alert :: "severity_level \<Rightarrow> real \<Rightarrow> ThreatAlert" where
  "example_alert sev conf =
     \<lparr> alert_id = (''hive_rug_pull'', ''0xh'', 0), alert_type = rug_pull, severity = sev,
       contractAddress = ''0xc'', transactionHash = ''0xh'', alert_timestamp = Some 1000,
       alert_blockNumber = Some 16, details = [], confidence = conf, mitigated = False \<rparr>"

section \<open>Examples\<close>

text \<open>
  A configuration with a low gas-anomaly threshold, and a window with three entries of
  gas price 1. \<open>burst_tx\<close> has gas price 97 and a payload of 11 bytes, \<open>short_burst_tx\<close>
  the same price and a payload of 5 bytes.
\<close>

definition mev_cfg :: DetectorConfig where
  "mev_cfg = example_cfg\<lparr> gasAnomalyThreshold := 10 \<rparr>"

definition prior_tx :: RealTransaction where
  "prior_tx = example_tx ''0xa'' (Some ''0xb'') ''0x1'' ''0x''"

definition burst_tx :: RealTransaction where
  "burst_tx = example_tx ''0xa'' (Some ''0xb'') ''0x61'' ''0x1234567890123456789012''"

definition short_burst_tx :: RealTransaction where
  "short_burst_tx = example_tx ''0xa'' (Some ''0xb'') ''0x61'' ''0x1234567890''"

definition three_prior :: detector_state where
  "three_prior =
     process_all mev_cfg initial_detector
       [(\<lambda>i. 0, prior_tx), (\<lambda>i. 0, prior_tx), (\<lambda>i. 0, prior_tx)]"

text \<open>
  A window with two entries of gas price 0, and a transaction of the same pair with gas
  price \<open>7035840805247321\<close> and a payload of 11 bytes.
\<close>

definition zero_price_tx :: RealTransaction where
  "zero_price_tx = example_tx ''0xa'' (Some ''0xb'') ''0x0'' ''0x''"

definition two_prior :: detector_state where
  "two_prior =
     process_all example_cfg initial_detector [(\<lambda>i. 0, zero_price_tx), (\<lambda>i. 0, zero_price_tx)]"

definition odd_price_tx :: RealTransaction where
  "odd_price_tx =
     example_tx ''0xa'' (Some ''0xb'') ''0x18ff0f57e49959'' ''0x1234567890123456789012''"

text \<open>Contract creations with a payload of 600 bytes and of 1500 bytes.\<close>

definition creation_tx :: "nat \<Rightarrow> RealTransaction" where
  "creation_tx n = example_tx ''0xa'' None ''0x1'' (''0x'' @ replicate (2 * n) (CHR ''6''))"

text \<open>Eleven transactions of one pair, told apart by their timestamps.\<close>

definition numbered_tx :: "nat \<Rightarrow> RealTransaction" where
  "numbered_tx n = (example_tx ''0xa'' (Some ''0xb'') ''0x1'' ''0x'')\<lparr> timestamp := Some (real n) \<rparr>"

definition eleven_calls :: "((nat \<Rightarrow> int) \<times> RealTransaction) list" where
  "eleven_calls = map (\<lambda>n. (\<lambda>i. 0, numbered_tx n)) [0, 1, 2, 3, 4, 5, 6, 7, 8, 9, 10]"

text \<open>A network for the examples: every request is rejected with status 500.\<close>

definition rejecting_net :: "nat \<Rightarrow> http_result \<times> int" where
  "rejecting_net k = (Rejected (Some 500), 2000 * int k)"

text \<open>A transaction that passes the eligibility gate (by its gas price) and one that does not.\<close>

definition eligible_tx :: RealTransaction where
  "eligible_tx = example_tx ''0xa'' (Some ''0xb'') ''0x1C9C380000'' ''0x''"

definition plain_tx :: RealTransaction where
  "plain_tx = example_tx ''0xa'' (Some ''0xb'') ''0x1'' ''0x''"

text \<open>A limiter that holds one timestamp, recorded at time 0.\<close>

definition stale_hive :: hive_state where
  "stale_hive = \<lparr> requestTimestamps = [0], requestCount = 1 \<rparr>"

text \<open>
  A network whose first answer carries a \<open>response\<close> field that is not a string (an
  object, say) and whose second answer carries a text.
\<close>

definition garbled_then_text_net :: "nat \<Rightarrow> http_result \<times> int" where
  "garbled_then_text_net k =
     (if k = 1 then (Answered (Body NonText None), 10)
      else (Answered (Body (Text ''high risk transaction'') None), 1500))"

text \<open>
  Ten eligible transactions that arrive 3 seconds apart, from time 0 to time 27000, on a
  network that rejects every request with status 500, the second attempt of a call one
  second after the first.
\<close>

definition failing_net :: "int \<Rightarrow> nat \<Rightarrow> http_result \<times> int" where
  "failing_net now k = (Rejected (Some 500), now + 1000 * int k)"

definition failing_calls :: "(RealTransaction \<times> int \<times> (nat \<Rightarrow> http_result \<times> int)) list" where
  "failing_calls =
     map (\<lambda>t. (eligible_tx, t, failing_net t))
       [0, 3000, 6000, 9000, 12000, 15000, 18000, 21000, 24000, 27000]"

text \<open>
  A network that answers at once with a text, one whose answers carry a \<open>response\<close>
  field that is not a string, and seventeen calls on the first followed by one call on
  the second, all at time 0.
\<close>

definition instant_net :: "nat \<Rightarrow> http_result \<times> int" where
  "instant_net k = (Answered (Body (Text ''high risk transaction'') None), 0)"

definition garbled_net :: "nat \<Rightarrow> http_result \<times> int" where
  "garbled_net k = (Answered (Body NonText None), 0)"

definition answered_then_garbled ::
  "(RealTransaction \<times> int \<times> (nat \<Rightarrow> http_result \<times> int)) list" where
  "answered_then_garbled =
     replicate 17 (eligible_tx, 0, instant_net) @ [(eligible_tx, 0, garbled_net)]"


section \<open>Rounding to a double\<close>

lemma bit_length_bound: "n < 2 ^ k \<Longrightarrow> bit_length n \<le> k"
proof (induction k arbitrary: n)
  case 0
  then show ?case by (simp add: bit_length.simps)
next
  case (Suc k)
  show ?case
  proof (cases "n = 0")
    case True
    then show ?thesis by (simp add: bit_length.simps)
  next
    case False
    have "n div 2 < 2 ^ k" using Suc.prems by auto
    then have "bit_length (n div 2) \<le> k" by (rule Suc.IH)
    then show ?thesis using False by (subst bit_length.simps) simp
  qed
qed

lemma bit_length_pos: "0 < n \<Longrightarrow> 0 < bit_length n"
  by (subst bit_length.simps) simp

lemma bit_length_eq: "2 ^ k \<le> n \<Longrightarrow> n < 2 ^ Suc k \<Longrightarrow> bit_length n = Suc k"
proof (induction k arbitrary: n)
  case 0
  then have "n = 1" by simp
  then show ?case by (simp add: bit_length.simps)
next
  case (Suc k)
  have "2 ^ k \<le> n div 2" "n div 2 < 2 ^ Suc k" using Suc.prems by auto
  then have "bit_length (n div 2) = Suc k" by (rule Suc.IH)
  moreover have "n \<noteq> 0" using Suc.prems by auto
  ultimately show ?case by (subst bit_length.simps) simp
qed

lemma round_half_even_int: "round_half_even (of_int k) = k"
  by (simp add: round_half_even_def)

text \<open>Every natural number below \<open>2 ^ 53\<close> is a double.\<close>

lemma round_double_nat:
  assumes "n < 2 ^ 53"
  shows "round_double (real n) = real n"
proof (cases "n = 0")
  case True
  then show ?thesis by (simp add: round_double_def)
next
  case False
  define b where "b = bit_length n"
  define m where "m = 53 - b"
  have b: "0 < b" "b \<le> 53"
    using False bit_length_pos[of n] bit_length_bound[OF assms] by (simp_all add: b_def)
  have e: "exponent_of (real n) = int b - 1"
    using False by (simp add: exponent_of_def b_def)
  have mx: "max (int b - 1) (- 1022) = int b - 1" using b by simp
  have u: "pow2 (int b - 53) = 1 / 2 ^ m"
    using b by (auto simp: pow2_def m_def nat_diff_distrib' intro!: arg_cong[where f="\<lambda>k. (2::real) ^ k"])
  have q: "real n * 2 ^ m = of_int (int (n * 2 ^ m))" by simp
  have r: "round_half_even (real n * 2 ^ m) = int (n * 2 ^ m)"
    unfolding q by (rule round_half_even_int)
  show ?thesis
    using False by (simp add: round_double_def Let_def e mx u r)
qed

lemma round_double_numeral:
  "(numeral k :: nat) < 2 ^ 53 \<Longrightarrow> round_double (numeral k) = numeral k"
  using round_double_nat[of "numeral k"] by simp

lemma round_double_0: "round_double 0 = 0"
  by (simp add: round_double_def)

lemma round_double_1: "round_double 1 = 1"
  using round_double_nat[of 1] by simp

lemmas round_double_exact = round_double_numeral round_double_0 round_double_1

text \<open>
  The two roundings behind the third of \<open>7035840805247321\<close> and its triple: the quotient
  lies between \<open>2 ^ 51\<close> and \<open>2 ^ 52\<close>, where the doubles are the multiples of a half,
  and the product, \<open>7035840805247320.5\<close>, lies midway between two doubles.
\<close>

lemma round_third: "round_double (7035840805247321 / 3) = 4690560536831547 / 2"
proof -
  have b: "bit_length (2345280268415773::nat) = Suc 51" by (rule bit_length_eq) simp_all
  have f: "\<lfloor>7035840805247321 / 3 :: real\<rfloor> = 2345280268415773" by simp
  show ?thesis
    by (simp add: round_double_def exponent_of_def pow2_def round_half_even_def Let_def f b)
qed

lemma round_triple: "round_double (4690560536831547 / 2 * 3) = 7035840805247320"
proof -
  have b: "bit_length (7035840805247320::nat) = Suc 52" by (rule bit_length_eq) simp_all
  have f: "\<lfloor>4690560536831547 / 2 * 3 :: real\<rfloor> = 7035840805247320" by simp
  show ?thesis
    by (simp add: round_double_def exponent_of_def pow2_def round_half_even_def Let_def f b)
qed

lemma parse_zero: "parseInt16 ''0x0'' = Some 0"
  by (simp add: parseInt16_def is_space_def strip_0x_def hex_digit_def hex_value_def
        round_double_exact)

lemma parse_one: "parseInt16 ''0x1'' = Some 1"
  by (simp add: parseInt16_def is_space_def strip_0x_def hex_digit_def hex_value_def
        round_double_exact)

lemma parse_burst_gas: "parseInt16 ''0x61'' = Some 97"
  by (simp add: parseInt16_def is_space_def strip_0x_def hex_digit_def hex_value_def
        round_double_exact)

lemma parse_example_gas: "parseInt16 ''0x1C9C380000'' = Some 122880000000"
  by (simp add: parseInt16_def is_space_def strip_0x_def hex_digit_def hex_value_def
        round_double_exact)

lemma parse_odd_price: "parseInt16 ''0x18ff0f57e49959'' = Some 7035840805247321"
  by (simp add: parseInt16_def is_space_def strip_0x_def hex_digit_def hex_value_def
        round_double_exact)

section \<open>The sliding windows of the local detector\<close>

lemma window_track_same:
  "window (trackTransaction st tx) (pair_key tx) = push_capped (window st (pair_key tx)) tx"
  by (simp add: trackTransaction_def window_def Let_def split: option.splits)

lemma window_track_other:
  "k \<noteq> pair_key tx \<Longrightarrow> window (trackTransaction st tx) k = window st k"
  by (simp add: trackTransaction_def window_def Let_def)

lemma snd_detectThreats: "snd (detectThreats cfg clock st tx) = trackTransaction st tx"
  by (simp add: detectThreats_def Let_def)

lemma push_capped_drop:
  "length w \<le> 10 \<Longrightarrow> push_capped w tx = drop (length (w @ [tx]) - 10) (w @ [tx])"
  by (cases w) (auto simp: push_capped_def Let_def drop_Cons')

lemma drop_drop_append:
  "drop (length (drop (length xs - 10) xs @ ys) - 10) (drop (length xs - 10) xs @ ys)
     = drop (length (xs @ ys) - 10) (xs @ ys)"
  by (cases "length xs \<le> 10") (simp_all add: add.commute)

lemma window_process_all:
  "length (window st k) \<le> 10 \<Longrightarrow>
   window (process_all cfg st calls) k =
     drop (length (window st k @ filter (\<lambda>t. pair_key t = k) (map snd calls)) - 10)
       (window st k @ filter (\<lambda>t. pair_key t = k) (map snd calls))"
proof (induction calls arbitrary: st)
  case Nil
  then show ?case by simp
next
  case (Cons c calls)
  obtain clock tx where c: "c = (clock, tx)" by (cases c)
  let ?st = "trackTransaction st tx"
  let ?rest = "filter (\<lambda>t. pair_key t = k) (map snd calls)"
  have step: "process_all cfg st (c # calls) = process_all cfg ?st calls"
    by (simp add: c snd_detectThreats)
  show ?case
  proof (cases "pair_key tx = k")
    case True
    have f: "filter (\<lambda>t. pair_key t = k) (map snd (c # calls)) = tx # ?rest"
      using True by (simp add: c)
    have w: "window ?st k = drop (length (window st k @ [tx]) - 10) (window st k @ [tx])"
      using True window_track_same[of st tx] push_capped_drop[OF Cons.prems, of tx] by simp
    have len: "length (window ?st k) \<le> 10" unfolding w by simp
    have "window (process_all cfg ?st calls) k =
            drop (length (window ?st k @ ?rest) - 10) (window ?st k @ ?rest)"
      by (rule Cons.IH[OF len])
    also have "\<dots> = drop (length ((window st k @ [tx]) @ ?rest) - 10) ((window st k @ [tx]) @ ?rest)"
      unfolding w by (rule drop_drop_append)
    finally show ?thesis unfolding step f by simp
  next
    case False
    have f: "filter (\<lambda>t. pair_key t = k) (map snd (c # calls)) = ?rest"
      using False by (simp add: c)
    have w: "window ?st k = window st k" using False window_track_other[of k tx st] by simp
    have len: "length (window ?st k) \<le> 10" using Cons.prems w by simp
    show ?thesis unfolding step f using Cons.IH[OF len] w by simp
  qed
qed

text \<open>
  Claim C6. After the detector has processed any sequence of transactions from its
  initial state, the window of every key holds at most 10 entries, and it holds exactly
  the last 10 (or fewer) of the transactions sent with that key, in their order of
  arrival. One call appends the transaction to the window of its key when that holds
  fewer than 10 entries, and otherwise drops the oldest entry and appends.
\<close>

theorem C6_window_cap_fifo:
  "length (window (process_all cfg initial_detector calls) k) \<le> 10
   \<and> window (process_all cfg initial_detector calls) k =
       drop (length (filter (\<lambda>t. pair_key t = k) (map snd calls)) - 10)
         (filter (\<lambda>t. pair_key t = k) (map snd calls))
   \<and> window (snd (detectThreats cfg clock st tx)) (pair_key tx) =
       (if length (window st (pair_key tx)) < 10 then window st (pair_key tx) @ [tx]
        else tl (window st (pair_key tx)) @ [tx])"
proof -
  have e: "window initial_detector k = []"
    by (simp add: window_def initial_detector_def)
  have w: "window (process_all cfg initial_detector calls) k =
       drop (length (filter (\<lambda>t. pair_key t = k) (map snd calls)) - 10)
         (filter (\<lambda>t. pair_key t = k) (map snd calls))"
    using window_process_all[of initial_detector k cfg calls] by (simp add: e)
  have l: "length (window (process_all cfg initial_detector calls) k) \<le> 10"
    unfolding w by simp
  have s: "window (snd (detectThreats cfg clock st tx)) (pair_key tx) =
       (if length (window st (pair_key tx)) < 10 then window st (pair_key tx) @ [tx]
        else tl (window st (pair_key tx)) @ [tx])"
    by (cases "window st (pair_key tx)")
       (simp_all add: snd_detectThreats window_track_same push_capped_def Let_def)
  show ?thesis using l w s by blast
qed

theorem C6_window_cap_fifo_witness:
  "length (window (process_all example_cfg initial_detector eleven_calls) ''0xa-0xb'') = 10
   \<and> window (process_all example_cfg initial_detector eleven_calls) ''0xa-0xb'' =
       map numbered_tx [1, 2, 3, 4, 5, 6, 7, 8, 9, 10]"
proof -
  have k: "pair_key (numbered_tx n) = ''0xa-0xb''" for n
    by (simp add: numbered_tx_def pair_key_def example_tx_def to_string_def)
  show ?thesis
    using C6_window_cap_fifo[of example_cfg eleven_calls "''0xa-0xb''"]
    by (simp add: eleven_calls_def k)
qed

section \<open>The alerts of the local detectors\<close>

lemma alerts_of_append: "alerts_of n (xs @ ys) = alerts_of n xs @ alerts_of n ys"
  by (simp add: alerts_of_def)

lemma alerts_of_shape:
  "xs = [] \<or> (\<exists>a. xs = [a] \<and> fst (alert_id a) = p) \<Longrightarrow>
   alerts_of n xs = (if n = p then xs else [])"
  by (auto simp: alerts_of_def)

lemma gas_shape:
  "detectGasAnomalies cfg now tx = [] \<or>
   (\<exists>a. detectGasAnomalies cfg now tx = [a] \<and> fst (alert_id a) = ''gas_anomaly'')"
  by (cases "parseInt16 (gasPrice tx)") (simp_all add: detectGasAnomalies_def)

lemma transfer_shape:
  "detectLargeValueTransfers cfg now tx = [] \<or>
   (\<exists>a. detectLargeValueTransfers cfg now tx = [a] \<and> fst (alert_id a) = ''large_transfer'')"
  by (cases "parseInt16 (value_hex tx)") (simp_all add: detectLargeValueTransfers_def)

lemma mev_shape:
  "detectMEVActivity cfg now st tx = [] \<or>
   (\<exists>a. detectMEVActivity cfg now st tx = [a] \<and> fst (alert_id a) = ''mev_activity''
      \<and> alert_type a = mev_attack \<and> severity a = medium \<and> confidence a = 0.7)"
  by (cases "parseInt16 (gasPrice tx)"; cases "avgGasPrice (window st (pair_key tx))")
     (simp_all add: detectMEVActivity_def Let_def)

lemma creation_shape:
  "detectSuspiciousPatterns now tx = [] \<or>
   (\<exists>a. detectSuspiciousPatterns now tx = [a] \<and> fst (alert_id a) = ''suspicious_contract''
      \<and> alert_type a = suspicious_pattern \<and> severity a = low \<and> confidence a = 0.4)"
  by (simp add: detectSuspiciousPatterns_def)

lemma frequency_shape:
  "detectContractBehavior now st tx = [] \<or>
   (\<exists>a. detectContractBehavior now st tx = [a] \<and> fst (alert_id a) = ''high_frequency_contract'')"
  by (simp add: detectContractBehavior_def Let_def)

lemma alerts_of_gas:
  "alerts_of n (detectGasAnomalies cfg now tx) =
     (if n = ''gas_anomaly'' then detectGasAnomalies cfg now tx else [])"
  by (rule alerts_of_shape) (rule gas_shape)

lemma alerts_of_transfer:
  "alerts_of n (detectLargeValueTransfers cfg now tx) =
     (if n = ''large_transfer'' then detectLargeValueTransfers cfg now tx else [])"
  by (rule alerts_of_shape) (rule transfer_shape)

lemma alerts_of_mev:
  "alerts_of n (detectMEVActivity cfg now st tx) =
     (if n = ''mev_activity'' then detectMEVActivity cfg now st tx else [])"
  using mev_shape[of cfg now st tx] by (intro alerts_of_shape) blast

lemma alerts_of_creation:
  "alerts_of n (detectSuspiciousPatterns now tx) =
     (if n = ''suspicious_contract'' then detectSuspiciousPatterns now tx else [])"
  using creation_shape[of now tx] by (intro alerts_of_shape) blast

lemma alerts_of_frequency:
  "alerts_of n (detectContractBehavior now st tx) =
     (if n = ''high_frequency_contract'' then detectContractBehavior now st tx else [])"
  by (rule alerts_of_shape) (rule frequency_shape)

lemmas alerts_of_detectors =
  alerts_of_append alerts_of_gas alerts_of_transfer alerts_of_mev alerts_of_creation
  alerts_of_frequency


lemma mev_alerts_of_detectThreats:
  "alerts_of ''mev_activity'' (fst (detectThreats cfg clock st tx)) =
     detectMEVActivity cfg (clock 2) (trackTransaction st tx) tx"
  by (simp add: detectThreats_def Let_def alerts_of_detectors)

lemma creation_alerts_of_detectThreats:
  "alerts_of ''suspicious_contract'' (fst (detectThreats cfg clock st tx)) =
     detectSuspiciousPatterns (clock 3) tx"
  by (simp add: detectThreats_def Let_def alerts_of_detectors)



section \<open>The MEV-pattern detector\<close>

lemma mev_fires_iff:
  "(detectMEVActivity cfg now st tx \<noteq> []) =
     (exceeds (parseInt16 (gasPrice tx)) (gasAnomalyThreshold cfg * 0.5)
      \<and> length (input tx) > 10
      \<and> length (window st (pair_key tx)) > 2
      \<and> num_gt (parseInt16 (gasPrice tx)) (num_times (avgGasPrice (window st (pair_key tx))) 3))"
  by (cases "parseInt16 (gasPrice tx)"; cases "avgGasPrice (window st (pair_key tx))")
     (auto simp add: detectMEVActivity_def Let_def exceeds_def num_gt_def num_times_def)

lemma push_capped_length:
  "length (push_capped w tx) = (if length w < 10 then length w + 1 else length w)"
  by (simp add: push_capped_def Let_def)

lemma push_capped_short: "length w < 10 \<Longrightarrow> push_capped w tx = w @ [tx]"
  by (simp add: push_capped_def Let_def)

lemma push_capped_entries: "(length (push_capped w tx) > 2) = (length w \<ge> 2)"
  by (auto simp add: push_capped_length)

lemma payload_bytes_length:
  "even (length inp) \<Longrightarrow> 2 \<le> length inp \<Longrightarrow> (length inp > 10) = (payload_bytes inp > 4)"
  by (auto simp add: payload_bytes_def elim!: evenE)

lemma mev_fires_call:
  "(alerts_of ''mev_activity'' (fst (detectThreats cfg clock st tx)) \<noteq> []) =
     (exceeds (parseInt16 (gasPrice tx)) (gasAnomalyThreshold cfg * 0.5)
      \<and> length (input tx) > 10
      \<and> length (window st (pair_key tx)) \<ge> 2
      \<and> num_gt (parseInt16 (gasPrice tx))
           (num_times (avgGasPrice (push_capped (window st (pair_key tx)) tx)) 3))"
  unfolding mev_alerts_of_detectThreats mev_fires_iff window_track_same push_capped_entries
  by (rule refl)

lemma mev_call_shape:
  "alerts_of ''mev_activity'' (fst (detectThreats cfg clock st tx)) = []
   \<or> (\<exists>a. alerts_of ''mev_activity'' (fst (detectThreats cfg clock st tx)) = [a]
         \<and> alert_type a = mev_attack \<and> severity a = medium \<and> confidence a = 0.7)"
  unfolding mev_alerts_of_detectThreats
  using mev_shape[of cfg "clock 2" "trackTransaction st tx" tx] by blast

lemma mev_one_alert:
  "alerts_of ''mev_activity'' (fst (detectThreats cfg clock st tx)) \<noteq> [] \<Longrightarrow>
   length (alerts_of ''mev_activity'' (fst (detectThreats cfg clock st tx))) = 1"
  using mev_call_shape[of cfg clock st tx] by auto

lemma key_ab:
  "pair_key prior_tx = ''0xa-0xb''" "pair_key burst_tx = ''0xa-0xb''"
  "pair_key short_burst_tx = ''0xa-0xb''" "pair_key zero_price_tx = ''0xa-0xb''"
  "pair_key odd_price_tx = ''0xa-0xb''"
  by (simp_all add: pair_key_def prior_tx_def burst_tx_def short_burst_tx_def zero_price_tx_def
        odd_price_tx_def example_tx_def to_string_def)

lemma three_prior_window: "window three_prior ''0xa-0xb'' = [prior_tx, prior_tx, prior_tx]"
  using window_process_all[of initial_detector "''0xa-0xb''" mev_cfg
          "[(\<lambda>i. 0, prior_tx), (\<lambda>i. 0, prior_tx), (\<lambda>i. 0, prior_tx)]"]
  by (simp add: three_prior_def key_ab window_def initial_detector_def)

lemma two_prior_window: "window two_prior ''0xa-0xb'' = [zero_price_tx, zero_price_tx]"
  using window_process_all[of initial_detector "''0xa-0xb''" example_cfg
          "[(\<lambda>i. 0, zero_price_tx), (\<lambda>i. 0, zero_price_tx)]"]
  by (simp add: two_prior_def key_ab window_def initial_detector_def)

lemma example_prices:
  "parseInt16 (gasPrice prior_tx) = Some 1" "parseInt16 (gasPrice burst_tx) = Some 97"
  "parseInt16 (gasPrice short_burst_tx) = Some 97" "parseInt16 (gasPrice zero_price_tx) = Some 0"
  "parseInt16 (gasPrice odd_price_tx) = Some 7035840805247321"
  by (simp_all add: prior_tx_def burst_tx_def short_burst_tx_def zero_price_tx_def
        odd_price_tx_def example_tx_def parse_zero parse_one parse_burst_gas parse_odd_price)

text \<open>
  The average of three entries of price 1 and one of price 97 is 25, and 97 exceeds its
  triple.
\<close>

lemma burst_exceeds:
  assumes "parseInt16 (gasPrice tx) = Some 97"
  shows "num_gt (parseInt16 (gasPrice tx))
           (num_times (avgGasPrice (push_capped [prior_tx, prior_tx, prior_tx] tx)) 3)"
proof -
  have avg: "avgGasPrice [prior_tx, prior_tx, prior_tx, tx] = Some 25"
    by (simp add: avgGasPrice_def add_gas_def example_prices assms round_double_exact)
  show ?thesis
    by (simp add: push_capped_def avg assms num_gt_def num_times_def round_double_exact)
qed

text \<open>
  The average of two entries of price 0 and one of price \<open>7035840805247321\<close> is rounded
  down to \<open>2345280268415773.5\<close>, and its triple to \<open>7035840805247320\<close>, below the price.
\<close>

lemma odd_price_exceeds:
  "num_gt (parseInt16 (gasPrice odd_price_tx))
     (num_times (avgGasPrice (push_capped [zero_price_tx, zero_price_tx] odd_price_tx)) 3)"
proof -
  have avg: "avgGasPrice [zero_price_tx, zero_price_tx, odd_price_tx]
               = Some (4690560536831547 / 2)"
    by (simp add: avgGasPrice_def add_gas_def example_prices round_double_exact round_third)
  have triple: "num_times (Some (4690560536831547 / 2)) 3 = Some 7035840805247320"
    unfolding num_times_def option.case by (simp only: round_triple)
  show ?thesis
    by (simp add: push_capped_def avg triple example_prices num_gt_def)
qed

text \<open>
  Claim C4, as the specification states it: the detector fires only for a payload of
  more than 10 bytes and a window with more than 2 prior entries. It fails twice. With
  three prior entries of price 1, a transaction of price 97 whose payload has 5 bytes
  (an \<open>input\<close> of 12 characters) raises the alert. With exactly two prior entries, of
  price 0, a transaction of price \<open>7035840805247321\<close> and a payload of 11 bytes raises
  it as well: in doubles three times the average is \<open>7035840805247320\<close>.
\<close>

theorem C4_mev_pattern_counterexample:
  "payload_bytes (input short_burst_tx) = 5
   \<and> length (window three_prior (pair_key short_burst_tx)) = 3
   \<and> length (alerts_of ''mev_activity''
        (fst (detectThreats mev_cfg (\<lambda>i. 0) three_prior short_burst_tx))) = 1
   \<and> payload_bytes (input odd_price_tx) = 11
   \<and> length (window two_prior (pair_key odd_price_tx)) = 2
   \<and> length (alerts_of ''mev_activity''
        (fst (detectThreats example_cfg (\<lambda>i. 0) two_prior odd_price_tx))) = 1"
proof -
  have b: "payload_bytes (input short_burst_tx) = 5" "payload_bytes (input odd_price_tx) = 11"
    by (simp_all add: payload_bytes_def short_burst_tx_def odd_price_tx_def example_tx_def)
  have l: "length (input short_burst_tx) > 10" "length (input odd_price_tx) > 10"
    by (simp_all add: short_burst_tx_def odd_price_tx_def example_tx_def)
  have w: "length (window three_prior (pair_key short_burst_tx)) = 3"
     "length (window two_prior (pair_key odd_price_tx)) = 2"
    by (simp_all add: key_ab three_prior_window two_prior_window)
  have t: "exceeds (parseInt16 (gasPrice short_burst_tx)) (gasAnomalyThreshold mev_cfg * 0.5)"
     "exceeds (parseInt16 (gasPrice odd_price_tx)) (gasAnomalyThreshold example_cfg * 0.5)"
    by (simp_all add: example_prices exceeds_def mev_cfg_def example_cfg_def)
  have "alerts_of ''mev_activity''
          (fst (detectThreats mev_cfg (\<lambda>i. 0) three_prior short_burst_tx)) \<noteq> []"
    unfolding mev_fires_call
    using t(1) l(1) w(1) burst_exceeds[of short_burst_tx]
    by (simp add: key_ab three_prior_window example_prices)
  then have first: "length (alerts_of ''mev_activity''
        (fst (detectThreats mev_cfg (\<lambda>i. 0) three_prior short_burst_tx))) = 1"
    by (rule mev_one_alert)
  have "alerts_of ''mev_activity''
          (fst (detectThreats example_cfg (\<lambda>i. 0) two_prior odd_price_tx)) \<noteq> []"
    unfolding mev_fires_call
    using t(2) l(2) w(2) odd_price_exceeds
    by (simp add: key_ab two_prior_window)
  then have second: "length (alerts_of ''mev_activity''
        (fst (detectThreats example_cfg (\<lambda>i. 0) two_prior odd_price_tx))) = 1"
    by (rule mev_one_alert)
  show ?thesis using b w first second by simp
qed

text \<open>
  Claim C4, amended. The payload is measured by the length of the \<open>input\<close> string, which
  for a hexadecimal payload is longer than 10 exactly when the payload has more than 4
  bytes. The call first appends the transaction to the window of its pair (dropping the
  oldest entry of a full window); the entries that were there before are the prior
  entries. The MEV-pattern detector then fires exactly when the gas price exceeds half
  the gas-anomaly threshold, the \<open>input\<close> is longer than 10, the window had at least 2
  prior entries, and the gas price exceeds the rounded triple of the rounded average gas
  price of the window with the transaction as its newest entry. It produces at most one
  alert, of type \<open>mev_attack\<close>, severity \<open>medium\<close> and confidence 0.7.
\<close>

theorem C4_mev_pattern:
  "(alerts_of ''mev_activity'' (fst (detectThreats cfg clock st tx)) \<noteq> []) =
     (exceeds (parseInt16 (gasPrice tx)) (gasAnomalyThreshold cfg * 0.5)
      \<and> length (input tx) > 10
      \<and> length (window st (pair_key tx)) \<ge> 2
      \<and> num_gt (parseInt16 (gasPrice tx))
           (num_times (avgGasPrice (window (snd (detectThreats cfg clock st tx)) (pair_key tx))) 3))
   \<and> window (snd (detectThreats cfg clock st tx)) (pair_key tx) =
       (if length (window st (pair_key tx)) < 10 then window st (pair_key tx) @ [tx]
        else tl (window st (pair_key tx)) @ [tx])
   \<and> (even (length (input tx)) \<and> 2 \<le> length (input tx) \<longrightarrow>
        (length (input tx) > 10) = (payload_bytes (input tx) > 4))
   \<and> (alerts_of ''mev_activity'' (fst (detectThreats cfg clock st tx)) = []
      \<or> (\<exists>a. alerts_of ''mev_activity'' (fst (detectThreats cfg clock st tx)) = [a]
            \<and> alert_type a = mev_attack \<and> severity a = medium \<and> confidence a = 0.7))"
proof (intro conjI impI)
  show "(alerts_of ''mev_activity'' (fst (detectThreats cfg clock st tx)) \<noteq> []) =
     (exceeds (parseInt16 (gasPrice tx)) (gasAnomalyThreshold cfg * 0.5)
      \<and> length (input tx) > 10
      \<and> length (window st (pair_key tx)) \<ge> 2
      \<and> num_gt (parseInt16 (gasPrice tx))
           (num_times (avgGasPrice (window (snd (detectThreats cfg clock st tx)) (pair_key tx))) 3))"
    unfolding snd_detectThreats window_track_same by (rule mev_fires_call)
next
  show "window (snd (detectThreats cfg clock st tx)) (pair_key tx) =
       (if length (window st (pair_key tx)) < 10 then window st (pair_key tx) @ [tx]
        else tl (window st (pair_key tx)) @ [tx])"
    unfolding snd_detectThreats window_track_same
    by (cases "window st (pair_key tx)") (simp_all add: push_capped_def Let_def)
next
  assume "even (length (input tx)) \<and> 2 \<le> length (input tx)"
  then show "(length (input tx) > 10) = (payload_bytes (input tx) > 4)"
    using payload_bytes_length[of "input tx"] by blast
next
  show "alerts_of ''mev_activity'' (fst (detectThreats cfg clock st tx)) = []
      \<or> (\<exists>a. alerts_of ''mev_activity'' (fst (detectThreats cfg clock st tx)) = [a]
            \<and> alert_type a = mev_attack \<and> severity a = medium \<and> confidence a = 0.7)"
    by (rule mev_call_shape)
qed

theorem C4_mev_pattern_witness:
  "even (length (input burst_tx)) \<and> 2 \<le> length (input burst_tx)
   \<and> payload_bytes (input burst_tx) = 11
   \<and> length (window three_prior (pair_key burst_tx)) = 3
   \<and> window (snd (detectThreats mev_cfg (\<lambda>i. 0) three_prior burst_tx)) (pair_key burst_tx)
       = [prior_tx, prior_tx, prior_tx, burst_tx]
   \<and> (\<exists>a. alerts_of ''mev_activity'' (fst (detectThreats mev_cfg (\<lambda>i. 0) three_prior burst_tx)) = [a]
         \<and> alert_type a = mev_attack \<and> severity a = medium \<and> confidence a = 0.7)"
proof -
  have b: "even (length (input burst_tx))" "2 \<le> length (input burst_tx)"
     "payload_bytes (input burst_tx) = 11" "length (input burst_tx) > 10"
    by (simp_all add: payload_bytes_def burst_tx_def example_tx_def)
  have w: "window three_prior (pair_key burst_tx) = [prior_tx, prior_tx, prior_tx]"
    by (simp add: key_ab three_prior_window)
  have t: "exceeds (parseInt16 (gasPrice burst_tx)) (gasAnomalyThreshold mev_cfg * 0.5)"
    by (simp add: example_prices exceeds_def mev_cfg_def example_cfg_def)
  have w': "window (snd (detectThreats mev_cfg (\<lambda>i. 0) three_prior burst_tx)) (pair_key burst_tx)
              = [prior_tx, prior_tx, prior_tx, burst_tx]"
    unfolding snd_detectThreats window_track_same w by (simp add: push_capped_def)
  have g: "num_gt (parseInt16 (gasPrice burst_tx))
             (num_times (avgGasPrice [prior_tx, prior_tx, prior_tx, burst_tx]) 3)"
    using burst_exceeds[of burst_tx] by (simp add: example_prices push_capped_def)
  show ?thesis
    using C4_mev_pattern[of mev_cfg "\<lambda>i. 0" three_prior burst_tx] b t g
    unfolding w' w by auto
qed

section \<open>The key of a window\<close>

text \<open>
  Claim C5, as the specification states it: the key is symmetric, so that a transaction
  from A to B and one from B to A reach the same window. It fails for the addresses
  \<open>0xa\<close> and \<open>0xb\<close>: the two keys differ, and after both transactions each of the two
  windows holds one of them.
\<close>

theorem C5_symmetric_key_counterexample:
  "pair_key (example_tx ''0xa'' (Some ''0xb'') ''0x1'' ''0x'')
     \<noteq> pair_key (example_tx ''0xb'' (Some ''0xa'') ''0x1'' ''0x'')
   \<and> window (process_all example_cfg initial_detector
         [(\<lambda>i. 0, example_tx ''0xa'' (Some ''0xb'') ''0x1'' ''0x''),
          (\<lambda>i. 0, example_tx ''0xb'' (Some ''0xa'') ''0x1'' ''0x'')])
        (pair_key (example_tx ''0xa'' (Some ''0xb'') ''0x1'' ''0x''))
       = [example_tx ''0xa'' (Some ''0xb'') ''0x1'' ''0x'']
   \<and> window (process_all example_cfg initial_detector
         [(\<lambda>i. 0, example_tx ''0xa'' (Some ''0xb'') ''0x1'' ''0x''),
          (\<lambda>i. 0, example_tx ''0xb'' (Some ''0xa'') ''0x1'' ''0x'')])
        (pair_key (example_tx ''0xb'' (Some ''0xa'') ''0x1'' ''0x''))
       = [example_tx ''0xb'' (Some ''0xa'') ''0x1'' ''0x'']"
proof -
  let ?ab = "example_tx ''0xa'' (Some ''0xb'') ''0x1'' ''0x''"
  let ?ba = "example_tx ''0xb'' (Some ''0xa'') ''0x1'' ''0x''"
  have k: "pair_key ?ab = ''0xa-0xb''" "pair_key ?ba = ''0xb-0xa''"
    by (simp_all add: pair_key_def example_tx_def to_string_def)
  have w: "window (process_all example_cfg initial_detector [(\<lambda>i. 0, ?ab), (\<lambda>i. 0, ?ba)]) kk =
       drop (length (filter (\<lambda>t. pair_key t = kk) [?ab, ?ba]) - 10)
         (filter (\<lambda>t. pair_key t = kk) [?ab, ?ba])" for kk
    using window_process_all[of initial_detector kk example_cfg "[(\<lambda>i. 0, ?ab), (\<lambda>i. 0, ?ba)]"]
    by (simp add: window_def initial_detector_def)
  show ?thesis unfolding w by (simp add: k)
qed

lemma append_dash_inject:
  assumes "length a = length b" and "a @ ''-'' @ x = b @ ''-'' @ y"
  shows "a = b"
  using assms by simp

text \<open>
  Claim C5, amended. The window is keyed by the ordered string
  \<open>sender + '-' + recipient\<close>. A call appends the transaction to the window of its own
  key and leaves every other window as it was; for two distinct addresses of equal
  length, the transaction from B to A has another key than the one from A to B and
  leaves the window of A to B unchanged.
\<close>

theorem C5_ordered_key:
  assumes "to_addr t1 = Some (from_addr t2)" and "to_addr t2 = Some (from_addr t1)"
    and "length (from_addr t1) = length (from_addr t2)" and "from_addr t1 \<noteq> from_addr t2"
  shows "pair_key t1 = from_addr t1 @ ''-'' @ from_addr t2
         \<and> pair_key t1 \<noteq> pair_key t2
         \<and> window (snd (detectThreats cfg clock st t1)) (pair_key t1)
             = push_capped (window st (pair_key t1)) t1
         \<and> window (snd (detectThreats cfg clock st t2)) (pair_key t1) = window st (pair_key t1)"
proof -
  have k1: "pair_key t1 = from_addr t1 @ ''-'' @ from_addr t2"
    using assms(1) by (simp add: pair_key_def to_string_def)
  have k2: "pair_key t2 = from_addr t2 @ ''-'' @ from_addr t1"
    using assms(2) by (simp add: pair_key_def to_string_def)
  have ne: "pair_key t1 \<noteq> pair_key t2"
    unfolding k1 k2 using append_dash_inject[OF assms(3)] assms(4) by blast
  have same: "window (snd (detectThreats cfg clock st t1)) (pair_key t1)
             = push_capped (window st (pair_key t1)) t1"
    by (simp add: snd_detectThreats window_track_same)
  have other: "window (snd (detectThreats cfg clock st t2)) (pair_key t1) = window st (pair_key t1)"
    using ne by (simp add: snd_detectThreats window_track_other)
  show ?thesis using k1 ne same other by blast
qed

theorem C5_ordered_key_witness:
  "to_addr (example_tx ''0xa'' (Some ''0xb'') ''0x1'' ''0x'') = Some (from_addr (example_tx ''0xb'' (Some ''0xa'') ''0x1'' ''0x''))
   \<and> to_addr (example_tx ''0xb'' (Some ''0xa'') ''0x1'' ''0x'') = Some (from_addr (example_tx ''0xa'' (Some ''0xb'') ''0x1'' ''0x''))
   \<and> length (from_addr (example_tx ''0xa'' (Some ''0xb'') ''0x1'' ''0x'')) = length (from_addr (example_tx ''0xb'' (Some ''0xa'') ''0x1'' ''0x''))
   \<and> from_addr (example_tx ''0xa'' (Some ''0xb'') ''0x1'' ''0x'') \<noteq> from_addr (example_tx ''0xb'' (Some ''0xa'') ''0x1'' ''0x'')
   \<and> pair_key (example_tx ''0xa'' (Some ''0xb'') ''0x1'' ''0x'') = ''0xa-0xb''
   \<and> window (snd (detectThreats example_cfg (\<lambda>i. 0) initial_detector
          (example_tx ''0xb'' (Some ''0xa'') ''0x1'' ''0x''))) ''0xa-0xb'' = []"
proof -
  let ?ab = "example_tx ''0xa'' (Some ''0xb'') ''0x1'' ''0x''"
  let ?ba = "example_tx ''0xb'' (Some ''0xa'') ''0x1'' ''0x''"
  have h: "to_addr ?ab = Some (from_addr ?ba)" "to_addr ?ba = Some (from_addr ?ab)"
    "length (from_addr ?ab) = length (from_addr ?ba)" "from_addr ?ab \<noteq> from_addr ?ba"
    by (simp_all add: example_tx_def)
  have e: "window initial_detector k = []" for k
    by (simp add: window_def initial_detector_def)
  show ?thesis
    using C5_ordered_key[OF h, of example_cfg "\<lambda>i. 0" initial_detector] h
    by (simp add: e example_tx_def pair_key_def to_string_def)
qed

section \<open>Suspicious contract creation\<close>

lemma creation_fires_iff:
  "(detectSuspiciousPatterns now tx \<noteq> []) = (\<not> truthy (to_addr tx) \<and> length (input tx) > 1000)"
  by (simp add: detectSuspiciousPatterns_def)

lemma creation_call_shape:
  "alerts_of ''suspicious_contract'' (fst (detectThreats cfg clock st tx)) = []
   \<or> (\<exists>a. alerts_of ''suspicious_contract'' (fst (detectThreats cfg clock st tx)) = [a]
         \<and> alert_type a = suspicious_pattern \<and> severity a = low \<and> confidence a = 0.4)"
  unfolding creation_alerts_of_detectThreats
  using creation_shape[of "clock 3" tx] by blast

lemma creation_fires_call:
  "(alerts_of ''suspicious_contract'' (fst (detectThreats cfg clock st tx)) \<noteq> []) =
      (\<not> truthy (to_addr tx) \<and> length (input tx) > 1000)"
  unfolding creation_alerts_of_detectThreats by (rule creation_fires_iff)

lemma payload_bytes_creation:
  "even (length inp) \<Longrightarrow> 2 \<le> length inp \<Longrightarrow> (length inp > 1000) = (payload_bytes inp \<ge> 500)"
  by (auto simp add: payload_bytes_def elim!: evenE)

lemma creation_tx_facts:
  "to_addr (creation_tx n) = None" "length (input (creation_tx n)) = 2 * n + 2"
  "payload_bytes (input (creation_tx n)) = n"
  by (simp_all add: creation_tx_def example_tx_def payload_bytes_def)

text \<open>
  Claim C9, as the specification states it: the detector fires only for a payload of more
  than 1000 bytes. It fails for a contract creation with a payload of 600 bytes, whose
  \<open>input\<close> string has 1202 characters: the call produces one alert.
\<close>

theorem C9_contract_creation_counterexample:
  "to_addr (creation_tx 600) = None
   \<and> payload_bytes (input (creation_tx 600)) = 600
   \<and> length (input (creation_tx 600)) = 1202
   \<and> length (alerts_of ''suspicious_contract''
        (fst (detectThreats example_cfg (\<lambda>i. 0) initial_detector (creation_tx 600)))) = 1"
proof -
  have "alerts_of ''suspicious_contract''
          (fst (detectThreats example_cfg (\<lambda>i. 0) initial_detector (creation_tx 600))) \<noteq> []"
    unfolding creation_fires_call by (simp add: creation_tx_facts truthy_def)
  then have "length (alerts_of ''suspicious_contract''
        (fst (detectThreats example_cfg (\<lambda>i. 0) initial_detector (creation_tx 600)))) = 1"
    using creation_call_shape[of example_cfg "\<lambda>i. 0" initial_detector "creation_tx 600"] by auto
  then show ?thesis by (simp add: creation_tx_facts)
qed

text \<open>
  Claim C9, amended. The payload is measured by the length of the \<open>input\<close> string, which
  for a hexadecimal payload is longer than 1000 exactly when the payload has 500 bytes or
  more; the recipient is absent when \<open>to\<close> is \<open>null\<close> (or empty). The
  suspicious-contract-creation detector fires exactly when the recipient is absent and
  the \<open>input\<close> is longer than 1000; it then produces one alert, of severity \<open>low\<close> and
  confidence 0.4. In particular a contract creation with a payload of 1500 bytes
  produces exactly one such alert.
\<close>

theorem C9_contract_creation:
  "(alerts_of ''suspicious_contract'' (fst (detectThreats cfg clock st tx)) \<noteq> []) =
      (\<not> truthy (to_addr tx) \<and> length (input tx) > 1000)
   \<and> (even (length (input tx)) \<and> 2 \<le> length (input tx) \<longrightarrow>
        (length (input tx) > 1000) = (payload_bytes (input tx) \<ge> 500))
   \<and> (alerts_of ''suspicious_contract'' (fst (detectThreats cfg clock st tx)) = []
      \<or> (\<exists>a. alerts_of ''suspicious_contract'' (fst (detectThreats cfg clock st tx)) = [a]
            \<and> alert_type a = suspicious_pattern \<and> severity a = low \<and> confidence a = 0.4))
   \<and> (to_addr tx = None \<and> even (length (input tx)) \<and> 2 \<le> length (input tx)
        \<and> payload_bytes (input tx) = 1500 \<longrightarrow>
        (\<exists>a. alerts_of ''suspicious_contract'' (fst (detectThreats cfg clock st tx)) = [a]
            \<and> severity a = low \<and> confidence a = 0.4))"
proof -
  let ?alerts = "alerts_of ''suspicious_contract'' (fst (detectThreats cfg clock st tx))"
  have a: "(?alerts \<noteq> []) = (\<not> truthy (to_addr tx) \<and> length (input tx) > 1000)"
    by (rule creation_fires_call)
  have b: "?alerts = [] \<or> (\<exists>a. ?alerts = [a]
            \<and> alert_type a = suspicious_pattern \<and> severity a = low \<and> confidence a = 0.4)"
    by (rule creation_call_shape)
  have c: "even (length (input tx)) \<and> 2 \<le> length (input tx) \<longrightarrow>
        (length (input tx) > 1000) = (payload_bytes (input tx) \<ge> 500)"
    using payload_bytes_creation[of "input tx"] by blast
  have d: "to_addr tx = None \<and> even (length (input tx)) \<and> 2 \<le> length (input tx)
        \<and> payload_bytes (input tx) = 1500 \<longrightarrow>
        (\<exists>a. ?alerts = [a] \<and> severity a = low \<and> confidence a = 0.4)"
  proof
    assume h: "to_addr tx = None \<and> even (length (input tx)) \<and> 2 \<le> length (input tx)
        \<and> payload_bytes (input tx) = 1500"
    then have "length (input tx) > 1000" using c by simp
    with h have "?alerts \<noteq> []" unfolding a by (simp add: truthy_def)
    with b show "\<exists>a. ?alerts = [a] \<and> severity a = low \<and> confidence a = 0.4" by blast
  qed
  show ?thesis using a b c d by blast
qed

theorem C9_contract_creation_witness:
  "to_addr (creation_tx 1500) = None
   \<and> even (length (input (creation_tx 1500))) \<and> 2 \<le> length (input (creation_tx 1500))
   \<and> payload_bytes (input (creation_tx 1500)) = 1500
   \<and> (\<exists>a. alerts_of ''suspicious_contract''
            (fst (detectThreats example_cfg (\<lambda>i. 0) initial_detector (creation_tx 1500))) = [a]
          \<and> severity a = low \<and> confidence a = 0.4)"
proof -
  have h: "to_addr (creation_tx 1500) = None"
     "even (length (input (creation_tx 1500)))" "2 \<le> length (input (creation_tx 1500))"
     "payload_bytes (input (creation_tx 1500)) = 1500"
    by (simp_all add: creation_tx_facts)
  show ?thesis
    using C9_contract_creation[of example_cfg "\<lambda>i. 0" initial_detector "creation_tx 1500"] h
    by blast
qed

section \<open>The enrichment call\<close>

lemma retry_loop_2:
  "retry_loop tx net 2 st =
     (case fst (net 2) of
        Rejected status \<Rightarrow> (None, st, [Post 2])
      | Answered body \<Rightarrow>
          (case parseSearchResponse body (Some tx) of
             Inr r \<Rightarrow> (r, recordRequest (snd (net 2)) st, [Post 2, Recorded (snd (net 2))])
           | Inl e \<Rightarrow> (None, recordRequest (snd (net 2)) st, [Post 2, Recorded (snd (net 2))])))"
  by (subst retry_loop.simps)
     (simp add: retryCount_def try_request_def split: http_result.splits sum.splits)

lemma retry_loop_1:
  "retry_loop tx net 1 st =
     (case fst (net 1) of
        Rejected status \<Rightarrow>
          (fst (retry_loop tx net 2 st), fst (snd (retry_loop tx net 2 st)),
           [Post 1] @ [Wait 1000] @ snd (snd (retry_loop tx net 2 st)))
      | Answered body \<Rightarrow>
          (case parseSearchResponse body (Some tx) of
             Inr r \<Rightarrow> (r, recordRequest (snd (net 1)) st, [Post 1, Recorded (snd (net 1))])
           | Inl e \<Rightarrow>
               (fst (retry_loop tx net 2 (recordRequest (snd (net 1)) st)),
                fst (snd (retry_loop tx net 2 (recordRequest (snd (net 1)) st))),
                [Post 1, Recorded (snd (net 1))] @ [Wait 1000]
                @ snd (snd (retry_loop tx net 2 (recordRequest (snd (net 1)) st))))))"
  by (subst retry_loop.simps)
     (simp add: retryCount_def retryDelay_def try_request_def case_prod_beta
        del: One_nat_def split: http_result.splits sum.splits)

lemma parse_throws_iff:
  "(\<exists>e. parseSearchResponse body t = Inl e) = throws (Answered body)"
  by (cases body; simp add: throws_def parseSearchResponse_def split: response_field.splits)

lemma parse_empty_iff:
  "(parseSearchResponse body t = Inr None) = empty_answer (Answered body)"
  by (cases body; simp add: empty_answer_def parseSearchResponse_def split: response_field.splits)

lemma parse_some:
  "parseSearchResponse body t = Inr (Some a) \<Longrightarrow>
   \<exists>raw sources. body = Body (Text raw) sources \<and> raw \<noteq> [] \<and> a = parse_text raw sources"
  by (cases body; simp add: parseSearchResponse_def split: response_field.splits if_splits)

lemma retry_events_2: "snd (snd (retry_loop tx net 2 st)) = attempt_events net 2"
  by (simp add: retry_loop_2 attempt_events_def split: http_result.splits sum.splits)

lemma retry_events_1:
  "snd (snd (retry_loop tx net 1 st)) =
     attempt_events net 1
     @ (if throws (fst (net 1)) then Wait (retryDelay * 1) # attempt_events net 2 else [])"
proof (cases "fst (net 1)")
  case (Rejected status)
  then show ?thesis
    using retry_events_2[of tx net st]
    by (simp add: retry_loop_1 attempt_events_def throws_def retryDelay_def
          del: One_nat_def)
next
  case (Answered body)
  show ?thesis
  proof (cases "parseSearchResponse body (Some tx)")
    case (Inl e)
    then have "throws (Answered body)" using parse_throws_iff[of body "Some tx"] by blast
    then show ?thesis
      using Answered Inl retry_events_2[of tx net "recordRequest (snd (net 1)) st"]
      by (simp add: retry_loop_1 attempt_events_def retryDelay_def
            del: One_nat_def)
  next
    case (Inr r)
    then have "\<not> throws (Answered body)" using parse_throws_iff[of body "Some tx"] by auto
    then show ?thesis
      using Answered Inr by (simp add: retry_loop_1 attempt_events_def del: One_nat_def)
  qed
qed

lemma retry_result_2:
  assumes "no_result (fst (net 2))"
  shows "fst (retry_loop tx net 2 st) = None"
proof (cases "fst (net 2)")
  case (Rejected status)
  then show ?thesis by (simp add: retry_loop_2)
next
  case (Answered body)
  show ?thesis
  proof (cases "parseSearchResponse body (Some tx)")
    case (Inl e)
    with Answered show ?thesis by (simp add: retry_loop_2)
  next
    case (Inr r)
    then have "\<not> throws (Answered body)" using parse_throws_iff[of body "Some tx"] by auto
    with assms Answered have "empty_answer (Answered body)" by (simp add: no_result_def)
    then have "r = None" using parse_empty_iff[of body "Some tx"] Inr by simp
    with Answered Inr show ?thesis by (simp add: retry_loop_2)
  qed
qed

lemma retry_result_1:
  assumes "no_result (fst (net 1))" and "no_result (fst (net 2))"
  shows "fst (retry_loop tx net 1 st) = None"
proof (cases "fst (net 1)")
  case (Rejected status)
  then show ?thesis
    using retry_result_2[of net tx st, OF assms(2)]
    by (simp add: retry_loop_1 del: One_nat_def)
next
  case (Answered body)
  show ?thesis
  proof (cases "parseSearchResponse body (Some tx)")
    case (Inl e)
    with Answered show ?thesis
      using retry_result_2[of net tx "recordRequest (snd (net 1)) st", OF assms(2)]
      by (simp add: retry_loop_1 del: One_nat_def)
  next
    case (Inr r)
    then have "\<not> throws (Answered body)" using parse_throws_iff[of body "Some tx"] by auto
    with assms(1) Answered have "empty_answer (Answered body)" by (simp add: no_result_def)
    then have "r = None" using parse_empty_iff[of body "Some tx"] Inr by simp
    with Answered Inr show ?thesis by (simp add: retry_loop_1 del: One_nat_def)
  qed
qed

lemma retry_empty_first:
  assumes "empty_answer (fst (net 1))"
  shows "retry_loop tx net 1 st =
           (None, recordRequest (snd (net 1)) st, [Post 1, Recorded (snd (net 1))])"
proof (cases "fst (net 1)")
  case (Rejected status)
  with assms show ?thesis by (simp add: empty_answer_def)
next
  case (Answered body)
  with assms have "parseSearchResponse body (Some tx) = Inr None"
    using parse_empty_iff[of body "Some tx"] by simp
  with Answered show ?thesis by (simp add: retry_loop_1 del: One_nat_def)
qed

lemma retry_some_2:
  assumes "fst (retry_loop tx net 2 st) = Some a"
  shows "\<exists>raw sources. fst (net 2) = Answered (Body (Text raw) sources) \<and> raw \<noteq> []
           \<and> a = parse_text raw sources"
proof (cases "fst (net 2)")
  case (Rejected status)
  with assms show ?thesis by (simp add: retry_loop_2)
next
  case (Answered body)
  show ?thesis
  proof (cases "parseSearchResponse body (Some tx)")
    case (Inl e)
    with Answered assms show ?thesis by (simp add: retry_loop_2)
  next
    case (Inr r)
    with Answered assms have "r = Some a" by (simp add: retry_loop_2)
    with Inr Answered show ?thesis using parse_some[of body "Some tx" a] by simp
  qed
qed

lemma retry_some_1:
  assumes "fst (retry_loop tx net 1 st) = Some a"
  shows "\<exists>k raw sources. (k = 1 \<or> k = 2) \<and> fst (net k) = Answered (Body (Text raw) sources)
           \<and> raw \<noteq> [] \<and> a = parse_text raw sources"
proof (cases "fst (net 1)")
  case (Rejected status)
  with assms have "fst (retry_loop tx net 2 st) = Some a"
    by (simp add: retry_loop_1 del: One_nat_def)
  then show ?thesis using retry_some_2[of tx net st a] by blast
next
  case (Answered body)
  show ?thesis
  proof (cases "parseSearchResponse body (Some tx)")
    case (Inl e)
    with Answered assms
    have "fst (retry_loop tx net 2 (recordRequest (snd (net 1)) st)) = Some a"
      by (simp add: retry_loop_1 del: One_nat_def)
    then show ?thesis using retry_some_2[of tx net _ a] by blast
  next
    case (Inr r)
    with Answered assms have "r = Some a" by (simp add: retry_loop_1 del: One_nat_def)
    with Inr Answered show ?thesis using parse_some[of body "Some tx" a] by auto
  qed
qed

lemma posts_attempt_events: "posts (attempt_events net k) = [k]"
  by (simp add: attempt_events_def split: http_result.splits)

lemma posts_append: "posts (xs @ ys) = posts xs @ posts ys"
  by (induction xs rule: posts.induct) simp_all

lemma recorded_append: "recorded (xs @ ys) = recorded xs @ recorded ys"
  by (induction xs rule: recorded.induct) simp_all

lemma analyze_disabled:
  "\<not> hive_enabled cfg \<or> \<not> truthy (hive_apiKey cfg) \<Longrightarrow>
   analyzeTransaction cfg tx now net st = (Inr None, st, [])"
  by (simp add: analyzeTransaction_def)

lemma analyze_refused:
  "hive_enabled cfg \<Longrightarrow> truthy (hive_apiKey cfg) \<Longrightarrow> \<not> fst (canMakeRequest now st) \<Longrightarrow>
   analyzeTransaction cfg tx now net st =
     (Inr None, snd (canMakeRequest now st), [LimiterCheck now])"
  by (simp add: analyzeTransaction_def case_prod_beta)

lemma analyze_skipped:
  "hive_enabled cfg \<Longrightarrow> truthy (hive_apiKey cfg) \<Longrightarrow> \<not> eligible cfg tx \<Longrightarrow>
   analyzeTransaction cfg tx now net st =
     (Inr None, snd (canMakeRequest now st), [LimiterCheck now])"
  by (simp add: analyzeTransaction_def case_prod_beta)

lemma analyze_requested:
  "hive_enabled cfg \<Longrightarrow> truthy (hive_apiKey cfg) \<Longrightarrow> fst (canMakeRequest now st) \<Longrightarrow>
   eligible cfg tx \<Longrightarrow>
   analyzeTransaction cfg tx now net st =
     (Inr (fst (retry_loop tx net 1 (snd (canMakeRequest now st)))),
      fst (snd (retry_loop tx net 1 (snd (canMakeRequest now st)))),
      LimiterCheck now # snd (snd (retry_loop tx net 1 (snd (canMakeRequest now st)))))"
  by (simp add: analyzeTransaction_def case_prod_beta del: One_nat_def)

lemma analyze_cases:
  obtains (disabled) "\<not> hive_enabled cfg \<or> \<not> truthy (hive_apiKey cfg)"
    "analyzeTransaction cfg tx now net st = (Inr None, st, [])"
  | (skipped) "hive_enabled cfg" "truthy (hive_apiKey cfg)"
    "\<not> fst (canMakeRequest now st) \<or> \<not> eligible cfg tx"
    "analyzeTransaction cfg tx now net st =
       (Inr None, snd (canMakeRequest now st), [LimiterCheck now])"
  | (requested) "hive_enabled cfg" "truthy (hive_apiKey cfg)"
    "fst (canMakeRequest now st)" "eligible cfg tx"
    "analyzeTransaction cfg tx now net st =
     (Inr (fst (retry_loop tx net 1 (snd (canMakeRequest now st)))),
      fst (snd (retry_loop tx net 1 (snd (canMakeRequest now st)))),
      LimiterCheck now # snd (snd (retry_loop tx net 1 (snd (canMakeRequest now st)))))"
  using analyze_disabled[where cfg=cfg and tx=tx and now=now and net=net and st=st]
    analyze_refused[where cfg=cfg and tx=tx and now=now and net=net and st=st]
    analyze_skipped[where cfg=cfg and tx=tx and now=now and net=net and st=st]
    analyze_requested[where cfg=cfg and tx=tx and now=now and net=net and st=st]
  by blast

lemma posts_retry_1:
  "posts (snd (snd (retry_loop tx net 1 st))) = (if throws (fst (net 1)) then [1, 2] else [1])"
  by (simp add: retry_events_1 posts_append posts_attempt_events del: One_nat_def)

text \<open>
  What an enrichment call does. It never ends in an exception: it returns an analysis or
  \<open>null\<close>. When the limiter admits an eligible transaction, the call makes a first
  request; if that attempt throws (the transport, or the parse of the answer) it waits
  \<open>retryDelay * 1\<close> = 1000 ms and makes a second and last one, so there are at most 2
  requests. When neither attempt carries a result the call returns \<open>null\<close>; an empty
  first answer gives \<open>null\<close> at once; and an analysis that is returned is the parse of a
  non-empty text answer of one of the two attempts.
\<close>

lemma enrichment_call:
  "(\<exists>r. fst (analyzeTransaction cfg tx now net st) = Inr r)
   \<and> (hive_enabled cfg \<and> truthy (hive_apiKey cfg) \<and> fst (canMakeRequest now st)
        \<and> eligible cfg tx \<longrightarrow>
        snd (snd (analyzeTransaction cfg tx now net st)) =
          LimiterCheck now # attempt_events net 1
          @ (if throws (fst (net 1)) then Wait (retryDelay * 1) # attempt_events net 2 else []))
   \<and> length (posts (snd (snd (analyzeTransaction cfg tx now net st)))) \<le> retryCount
   \<and> retryCount = 2 \<and> retryDelay = 1000
   \<and> (no_result (fst (net 1)) \<and> no_result (fst (net 2)) \<longrightarrow>
        fst (analyzeTransaction cfg tx now net st) = Inr None)
   \<and> (empty_answer (fst (net 1)) \<longrightarrow> fst (analyzeTransaction cfg tx now net st) = Inr None)
   \<and> (\<forall>a. fst (analyzeTransaction cfg tx now net st) = Inr (Some a) \<longrightarrow>
        (\<exists>k raw sources. (k = 1 \<or> k = 2) \<and> fst (net k) = Answered (Body (Text raw) sources)
           \<and> raw \<noteq> [] \<and> a = parse_text raw sources))"
proof -
  let ?call = "analyzeTransaction cfg tx now net st"
  let ?st1 = "snd (canMakeRequest now st)"
  have returns: "\<exists>r. fst ?call = Inr r"
    by (cases rule: analyze_cases[of cfg tx now net st]) simp_all
  have events: "hive_enabled cfg \<and> truthy (hive_apiKey cfg) \<and> fst (canMakeRequest now st)
        \<and> eligible cfg tx \<longrightarrow>
        snd (snd ?call) =
          LimiterCheck now # attempt_events net 1
          @ (if throws (fst (net 1)) then Wait (retryDelay * 1) # attempt_events net 2 else [])"
    using retry_events_1[of tx net ?st1]
    by (simp add: analyze_requested del: One_nat_def)
  have bound: "length (posts (snd (snd ?call))) \<le> retryCount"
    by (cases rule: analyze_cases[of cfg tx now net st])
       (simp_all add: posts_retry_1 retryCount_def del: One_nat_def)
  have none: "no_result (fst (net 1)) \<and> no_result (fst (net 2)) \<longrightarrow> fst ?call = Inr None"
    by (cases rule: analyze_cases[of cfg tx now net st])
       (simp_all add: retry_result_1 del: One_nat_def)
  have empty: "empty_answer (fst (net 1)) \<longrightarrow> fst ?call = Inr None"
    by (cases rule: analyze_cases[of cfg tx now net st])
       (simp_all add: retry_empty_first del: One_nat_def)
  have some: "\<forall>a. fst ?call = Inr (Some a) \<longrightarrow>
        (\<exists>k raw sources. (k = 1 \<or> k = 2) \<and> fst (net k) = Answered (Body (Text raw) sources)
           \<and> raw \<noteq> [] \<and> a = parse_text raw sources)"
  proof (intro allI impI)
    fix a assume a: "fst ?call = Inr (Some a)"
    show "\<exists>k raw sources. (k = 1 \<or> k = 2) \<and> fst (net k) = Answered (Body (Text raw) sources)
           \<and> raw \<noteq> [] \<and> a = parse_text raw sources"
    proof (cases rule: analyze_cases[of cfg tx now net st])
      case disabled
      with a show ?thesis by simp
    next
      case skipped
      with a show ?thesis by simp
    next
      case requested
      with a have "fst (retry_loop tx net 1 ?st1) = Some a" by simp
      then show ?thesis by (rule retry_some_1)
    qed
  qed
  show ?thesis
    using returns events bound none empty some
    by (simp add: retryCount_def retryDelay_def del: One_nat_def)
qed

lemma eligible_by_gas: "eligible example_cfg eligible_tx"
  by (simp add: eligible_def eligible_tx_def example_tx_def exceeds_def parse_example_gas
        example_cfg_def)

lemma admitted_initially: "fst (canMakeRequest now initial_hive)"
  by (simp add: canMakeRequest_def initial_hive_def maxRequestsPerMinute_def)

lemma enabled_example: "hive_enabled example_cfg" "truthy (hive_apiKey example_cfg)"
  by (simp_all add: example_cfg_def truthy_def)

lemma purge_initial: "snd (canMakeRequest now initial_hive) = initial_hive"
  by (simp add: canMakeRequest_def initial_hive_def)

text \<open>
  Claim C8. A malformed answer should yield \<open>null\<close>, as an empty one does. In the call
  below the limiter admits an eligible transaction and the first answer carries a
  \<open>response\<close> field that is not a string. The guard of \<open>parseSearchResponse\<close> lets it
  pass, \<open>toLowerCase\<close> throws a \<open>TypeError\<close> after the request has been recorded, and the
  \<open>catch\<close> block of the retry loop takes it for a failed request: the call waits 1000 ms,
  sends a second request, records a second timestamp, and returns the analysis of the
  second answer instead of \<open>null\<close>.
\<close>

theorem C8_malformed_answer_retried:
  "parseSearchResponse (Body NonText None) (Some eligible_tx) = Inl TypeError
   \<and> fst (garbled_then_text_net 1) = Answered (Body NonText None)
   \<and> analyzeTransaction example_cfg eligible_tx 0 garbled_then_text_net initial_hive =
       (Inr (Some (parse_text ''high risk transaction'' None)),
        \<lparr> requestTimestamps = [10, 1500], requestCount = 2 \<rparr>,
        [LimiterCheck 0, Post 1, Recorded 10, Wait 1000, Post 2, Recorded 1500])"
proof -
  have p: "parseSearchResponse (Body NonText None) (Some eligible_tx) = Inl TypeError"
    by (simp add: parseSearchResponse_def)
  have q: "parseSearchResponse (Body (Text ''high risk transaction'') None) (Some eligible_tx)
             = Inr (Some (parse_text ''high risk transaction'' None))"
    by (simp add: parseSearchResponse_def)
  have n: "garbled_then_text_net 1 = (Answered (Body NonText None), 10)"
     "garbled_then_text_net 2 = (Answered (Body (Text ''high risk transaction'') None), 1500)"
    by (simp_all add: garbled_then_text_net_def)
  have second: "retry_loop eligible_tx garbled_then_text_net 2 (recordRequest 10 initial_hive) =
      (Some (parse_text ''high risk transaction'' None),
       \<lparr> requestTimestamps = [10, 1500], requestCount = 2 \<rparr>, [Post 2, Recorded 1500])"
    unfolding retry_loop_2 n fst_conv snd_conv http_result.case q sum.case
    by (simp add: recordRequest_def initial_hive_def)
  have first: "retry_loop eligible_tx garbled_then_text_net 1 initial_hive =
      (Some (parse_text ''high risk transaction'' None),
       \<lparr> requestTimestamps = [10, 1500], requestCount = 2 \<rparr>,
       [Post 1, Recorded 10, Wait 1000, Post 2, Recorded 1500])"
    unfolding retry_loop_1 n fst_conv snd_conv http_result.case p sum.case second
    by simp
  have call: "analyzeTransaction example_cfg eligible_tx 0 garbled_then_text_net initial_hive =
       (Inr (Some (parse_text ''high risk transaction'' None)),
        \<lparr> requestTimestamps = [10, 1500], requestCount = 2 \<rparr>,
        [LimiterCheck 0, Post 1, Recorded 10, Wait 1000, Post 2, Recorded 1500])"
    using analyze_requested[where cfg=example_cfg and tx=eligible_tx and now=0
            and net=garbled_then_text_net and st=initial_hive]
      enabled_example eligible_by_gas admitted_initially[of 0]
    unfolding purge_initial first by simp
  show ?thesis using p n(1) call by simp
qed

theorem C8_malformed_answer_retried_witness:
  "fst (analyzeTransaction example_cfg eligible_tx 0 garbled_then_text_net initial_hive) \<noteq> Inr None
   \<and> posts (snd (snd (analyzeTransaction example_cfg eligible_tx 0 garbled_then_text_net
        initial_hive))) = [1, 2]"
  using C8_malformed_answer_retried by (simp del: One_nat_def)

section \<open>The eligibility gate and the limiter\<close>

lemma purge_kept:
  "requestTimestamps (snd (canMakeRequest now st)) =
     filter (\<lambda>t. now - 60000 < t) (requestTimestamps st)"
  by (simp add: canMakeRequest_def Let_def)

lemma admitted_iff:
  "fst (canMakeRequest now st) =
     (length (filter (\<lambda>t. now - 60000 < t) (requestTimestamps st)) < 18)"
  by (simp add: canMakeRequest_def Let_def maxRequestsPerMinute_def)

text \<open>
  Claim C2, as the specification states it: a transaction that fails the eligibility
  gate never consults the rate limiter. It fails for a transaction with a small value,
  a small gas price and an empty payload, handled at time 100000 by a limiter that holds
  a timestamp of time 0: the call checks the limiter, which purges that timestamp, and
  only then returns \<open>null\<close>.
\<close>

theorem C2_gate_first_counterexample:
  "\<not> eligible example_cfg plain_tx
   \<and> requestTimestamps stale_hive = [0]
   \<and> analyzeTransaction example_cfg plain_tx 100000 rejecting_net stale_hive =
       (Inr None, \<lparr> requestTimestamps = [], requestCount = 1 \<rparr>, [LimiterCheck 100000])"
proof -
  have e: "\<not> eligible example_cfg plain_tx"
    by (simp add: eligible_def plain_tx_def example_tx_def exceeds_def parse_zero parse_one
          example_cfg_def)
  have h: "hive_enabled example_cfg" "truthy (hive_apiKey example_cfg)"
    by (simp_all add: example_cfg_def truthy_def)
  have c: "snd (canMakeRequest 100000 stale_hive) = \<lparr> requestTimestamps = [], requestCount = 1 \<rparr>"
    by (simp add: canMakeRequest_def stale_hive_def)
  have r: "requestTimestamps stale_hive = [0]"
    by (simp add: stale_hive_def)
  show ?thesis
    using e analyze_skipped[OF h e, where now=100000 and st=stale_hive and net=rejecting_net]
    by (simp add: c r)
qed

text \<open>
  Claim C2, amended. With the service enabled, the rate limiter is consulted first, and
  the check purges the timestamps that are not newer than 60 seconds; the eligibility
  gate (value above the flash-loan minimum, or gas price above the gas-anomaly
  threshold, or a payload longer than 100) is evaluated after it. A transaction that
  fails the gate skips the enrichment: the call returns \<open>null\<close>, sends no request and
  records no timestamp, and the purge is its only effect on the limiter.
\<close>

theorem C2_limiter_then_gate:
  "eligible cfg tx =
     (exceeds (parseInt16 (value_hex tx)) (flashLoanMinValue cfg)
      \<or> exceeds (parseInt16 (gasPrice tx)) (gasAnomalyThreshold cfg)
      \<or> length (input tx) > 100)
   \<and> (hive_enabled cfg \<and> truthy (hive_apiKey cfg) \<and> \<not> eligible cfg tx \<longrightarrow>
        analyzeTransaction cfg tx now net st =
          (Inr None, snd (canMakeRequest now st), [LimiterCheck now])
        \<and> posts (snd (snd (analyzeTransaction cfg tx now net st))) = []
        \<and> recorded (snd (snd (analyzeTransaction cfg tx now net st))) = []
        \<and> requestTimestamps (fst (snd (analyzeTransaction cfg tx now net st))) =
            filter (\<lambda>t. now - 60000 < t) (requestTimestamps st)
        \<and> requestCount (fst (snd (analyzeTransaction cfg tx now net st))) = requestCount st)
   \<and> (hive_enabled cfg \<and> truthy (hive_apiKey cfg) \<longrightarrow>
        (\<exists>ev. snd (snd (analyzeTransaction cfg tx now net st)) = LimiterCheck now # ev))"
proof -
  have g: "eligible cfg tx =
     (exceeds (parseInt16 (value_hex tx)) (flashLoanMinValue cfg)
      \<or> exceeds (parseInt16 (gasPrice tx)) (gasAnomalyThreshold cfg)
      \<or> length (input tx) > 100)"
    by (simp add: eligible_def Let_def)
  have s: "hive_enabled cfg \<and> truthy (hive_apiKey cfg) \<and> \<not> eligible cfg tx \<longrightarrow>
        analyzeTransaction cfg tx now net st =
          (Inr None, snd (canMakeRequest now st), [LimiterCheck now])
        \<and> posts (snd (snd (analyzeTransaction cfg tx now net st))) = []
        \<and> recorded (snd (snd (analyzeTransaction cfg tx now net st))) = []
        \<and> requestTimestamps (fst (snd (analyzeTransaction cfg tx now net st))) =
            filter (\<lambda>t. now - 60000 < t) (requestTimestamps st)
        \<and> requestCount (fst (snd (analyzeTransaction cfg tx now net st))) = requestCount st"
    by (simp add: analyze_skipped purge_kept) (simp add: canMakeRequest_def Let_def)
  have f: "hive_enabled cfg \<and> truthy (hive_apiKey cfg) \<longrightarrow>
        (\<exists>ev. snd (snd (analyzeTransaction cfg tx now net st)) = LimiterCheck now # ev)"
    by (cases rule: analyze_cases[of cfg tx now net st]) simp_all
  show ?thesis using g s f by blast
qed

theorem C2_limiter_then_gate_witness:
  "hive_enabled example_cfg \<and> truthy (hive_apiKey example_cfg) \<and> \<not> eligible example_cfg plain_tx
   \<and> posts (snd (snd (analyzeTransaction example_cfg plain_tx 100000 rejecting_net stale_hive))) = []
   \<and> recorded (snd (snd (analyzeTransaction example_cfg plain_tx 100000 rejecting_net stale_hive))) = []
   \<and> requestTimestamps (fst (snd (analyzeTransaction example_cfg plain_tx 100000 rejecting_net stale_hive))) = []"
proof -
  have e: "\<not> eligible example_cfg plain_tx"
    by (simp add: eligible_def plain_tx_def example_tx_def exceeds_def parse_zero parse_one
          example_cfg_def)
  have h: "hive_enabled example_cfg" "truthy (hive_apiKey example_cfg)"
    by (simp_all add: example_cfg_def truthy_def)
  show ?thesis
    using C2_limiter_then_gate[of example_cfg plain_tx 100000 rejecting_net stale_hive] e h
    by (simp add: stale_hive_def canMakeRequest_def)
qed

section \<open>The rate limiter along a run\<close>

lemma analyze_all_append:
  "analyze_all cfg st (xs @ ys) =
     (fst (analyze_all cfg (fst (analyze_all cfg st xs)) ys),
      snd (analyze_all cfg st xs) @ snd (analyze_all cfg (fst (analyze_all cfg st xs)) ys))"
  by (induction xs arbitrary: st) (auto simp add: case_prod_beta)

text \<open>A call whose two requests are rejected records nothing.\<close>

lemma failing_call:
  "analyzeTransaction example_cfg eligible_tx t (failing_net t) initial_hive =
     (Inr None, initial_hive, [LimiterCheck t, Post 1, Wait 1000, Post 2])"
proof -
  have n: "fst (failing_net t k) = Rejected (Some 500)" for k
    by (simp add: failing_net_def)
  have second: "retry_loop eligible_tx (failing_net t) 2 initial_hive = (None, initial_hive, [Post 2])"
    unfolding retry_loop_2 n by simp
  have first: "retry_loop eligible_tx (failing_net t) 1 initial_hive =
      (None, initial_hive, [Post 1, Wait 1000, Post 2])"
    unfolding retry_loop_1 n second by simp
  show ?thesis
    using analyze_requested[where cfg=example_cfg and tx=eligible_tx and now=t
            and net="failing_net t" and st=initial_hive]
      enabled_example eligible_by_gas admitted_initially[of t]
    unfolding purge_initial first by simp
qed

lemma failing_run:
  "analyze_all example_cfg initial_hive (map (\<lambda>t. (eligible_tx, t, failing_net t)) ts) =
     (initial_hive, concat (map (\<lambda>t. [LimiterCheck t, Post 1, Wait 1000, Post 2]) ts))"
  by (induction ts) (simp_all add: failing_call del: One_nat_def)

text \<open>
  With \<open>m\<close> timestamps of time 0 stored, fewer than 18, a call at time 0 that is answered
  at once records one more.
\<close>

lemma purge_recent:
  "canMakeRequest 0 \<lparr> requestTimestamps = replicate m 0, requestCount = m \<rparr> =
     (m < 18, \<lparr> requestTimestamps = replicate m 0, requestCount = m \<rparr>)"
  by (simp add: canMakeRequest_def maxRequestsPerMinute_def)

lemma answered_call:
  assumes "m < 18"
  shows "analyzeTransaction example_cfg eligible_tx 0 instant_net
           \<lparr> requestTimestamps = replicate m 0, requestCount = m \<rparr> =
         (Inr (Some (parse_text ''high risk transaction'' None)),
          \<lparr> requestTimestamps = replicate (Suc m) 0, requestCount = Suc m \<rparr>,
          [LimiterCheck 0, Post 1, Recorded 0])"
proof -
  let ?st = "\<lparr> requestTimestamps = replicate m 0, requestCount = m \<rparr>"
  have n: "instant_net 1 = (Answered (Body (Text ''high risk transaction'') None), 0)"
    by (simp add: instant_net_def)
  have q: "parseSearchResponse (Body (Text ''high risk transaction'') None) (Some eligible_tx)
             = Inr (Some (parse_text ''high risk transaction'' None))"
    by (simp add: parseSearchResponse_def)
  have first: "retry_loop eligible_tx instant_net 1 ?st =
      (Some (parse_text ''high risk transaction'' None),
       \<lparr> requestTimestamps = replicate (Suc m) 0, requestCount = Suc m \<rparr>,
       [Post 1, Recorded 0])"
    unfolding retry_loop_1 n fst_conv snd_conv http_result.case q sum.case
    by (simp add: recordRequest_def replicate_append_same)
  have adm: "fst (canMakeRequest 0 ?st)" "snd (canMakeRequest 0 ?st) = ?st"
    using assms by (simp_all add: purge_recent)
  show ?thesis
    using analyze_requested[where cfg=example_cfg and tx=eligible_tx and now=0
            and net=instant_net and st="?st"]
      enabled_example eligible_by_gas adm(1)
    unfolding adm(2) first by simp
qed

lemma answered_run:
  "m + n \<le> 18 \<Longrightarrow>
   analyze_all example_cfg \<lparr> requestTimestamps = replicate m 0, requestCount = m \<rparr>
     (replicate n (eligible_tx, 0, instant_net)) =
     (\<lparr> requestTimestamps = replicate (m + n) 0, requestCount = m + n \<rparr>,
      concat (replicate n [LimiterCheck 0, Post 1, Recorded 0]))"
proof (induction n arbitrary: m)
  case 0
  then show ?case by simp
next
  case (Suc n)
  have m: "m < 18" "Suc m + n \<le> 18" using Suc.prems by simp_all
  show ?case
    using Suc.IH[OF m(2)] by (simp add: answered_call[OF m(1)] del: One_nat_def)
qed

text \<open>
  With \<open>m\<close> timestamps of time 0 stored, fewer than 18, a call at time 0 whose two
  answers carry a \<open>response\<close> field that is not a string is admitted once and records
  two.
\<close>

lemma garbled_call:
  assumes "m < 18"
  shows "analyzeTransaction example_cfg eligible_tx 0 garbled_net
           \<lparr> requestTimestamps = replicate m 0, requestCount = m \<rparr> =
         (Inr None, \<lparr> requestTimestamps = replicate (m + 2) 0, requestCount = m + 2 \<rparr>,
          [LimiterCheck 0, Post 1, Recorded 0, Wait 1000, Post 2, Recorded 0])"
proof -
  let ?st = "\<lparr> requestTimestamps = replicate m 0, requestCount = m \<rparr>"
  have n: "garbled_net k = (Answered (Body NonText None), 0)" for k
    by (simp add: garbled_net_def)
  have p: "parseSearchResponse (Body NonText None) (Some eligible_tx) = Inl TypeError"
    by (simp add: parseSearchResponse_def)
  have r: "recordRequest 0 (recordRequest 0 ?st) =
             \<lparr> requestTimestamps = replicate (m + 2) 0, requestCount = m + 2 \<rparr>"
    by (simp add: recordRequest_def replicate_append_same)
  have second: "retry_loop eligible_tx garbled_net 2 (recordRequest 0 ?st) =
      (None, \<lparr> requestTimestamps = replicate (m + 2) 0, requestCount = m + 2 \<rparr>,
       [Post 2, Recorded 0])"
    unfolding retry_loop_2 n fst_conv snd_conv http_result.case p sum.case r
    by (rule refl)
  have first: "retry_loop eligible_tx garbled_net 1 ?st =
      (None, \<lparr> requestTimestamps = replicate (m + 2) 0, requestCount = m + 2 \<rparr>,
       [Post 1, Recorded 0, Wait 1000, Post 2, Recorded 0])"
    unfolding retry_loop_1 n fst_conv snd_conv http_result.case p sum.case second
    by simp
  have adm: "fst (canMakeRequest 0 ?st)" "snd (canMakeRequest 0 ?st) = ?st"
    using assms by (simp_all add: purge_recent)
  show ?thesis
    using analyze_requested[where cfg=example_cfg and tx=eligible_tx and now=0
            and net=garbled_net and st="?st"]
      enabled_example eligible_by_gas adm(1)
    unfolding adm(2) first by simp
qed

lemma monotone_answered:
  "clock_monotone 0 (replicate n (eligible_tx, 0, instant_net) @ [(eligible_tx, 0, garbled_net)])"
  by (induction n) (simp_all add: instant_net_def garbled_net_def)

lemma answered_then_garbled_run:
  "analyze_all example_cfg initial_hive answered_then_garbled =
     (\<lparr> requestTimestamps = replicate 19 0, requestCount = 19 \<rparr>,
      concat (replicate 17 [LimiterCheck 0, Post 1, Recorded 0])
      @ [LimiterCheck 0, Post 1, Recorded 0, Wait 1000, Post 2, Recorded 0])"
proof -
  have a: "analyze_all example_cfg initial_hive (replicate 17 (eligible_tx, 0, instant_net)) =
     (\<lparr> requestTimestamps = replicate 17 0, requestCount = 17 \<rparr>,
      concat (replicate 17 [LimiterCheck 0, Post 1, Recorded 0]))"
    using answered_run[of 0 17] by (simp add: initial_hive_def)
  have b: "analyze_all example_cfg \<lparr> requestTimestamps = replicate 17 0, requestCount = 17 \<rparr>
             [(eligible_tx, 0, garbled_net)] =
     (\<lparr> requestTimestamps = replicate 19 0, requestCount = 19 \<rparr>,
      [LimiterCheck 0, Post 1, Recorded 0, Wait 1000, Post 2, Recorded 0])"
    using garbled_call[of 17] by (simp del: One_nat_def)
  show ?thesis
    unfolding answered_then_garbled_def analyze_all_append a fst_conv snd_conv b
    by (rule refl)
qed

lemma posts_answered: "posts (concat (replicate n [LimiterCheck 0, Post 1, Recorded 0])) = replicate n 1"
  by (induction n) (simp_all del: One_nat_def)

lemma recorded_answered:
  "recorded (concat (replicate n [LimiterCheck 0, Post 1, Recorded 0])) = replicate n 0"
  by (induction n) (simp_all del: One_nat_def)

text \<open>
  Claim C1. The limiter should admit at most 18 requests in any window of 60 seconds
  and count each request that it admits. It counts a request only when the answer to it
  has arrived, and it checks the window once for a call, not for each request of the
  call. Ten eligible transactions that arrive 3 seconds apart while the service answers
  every request with status 500 make the code send 20 requests within half a minute,
  none of which is recorded; the window stays empty. And with 17 requests recorded at
  time 0, one more call at time 0 is admitted and, both answers carrying a \<open>response\<close>
  field that is not a string, sends and records two requests: 19 requests have been
  sent, and 19 timestamps lie in one window of 60 seconds.
\<close>

theorem C1_requests_not_counted:
  "clock_monotone 0 failing_calls
   \<and> snd (analyze_all example_cfg initial_hive failing_calls) =
       concat (map (\<lambda>t. [LimiterCheck t, Post 1, Wait 1000, Post 2])
         [0, 3000, 6000, 9000, 12000, 15000, 18000, 21000, 24000, 27000])
   \<and> length (posts (snd (analyze_all example_cfg initial_hive failing_calls))) = 20
   \<and> recorded (snd (analyze_all example_cfg initial_hive failing_calls)) = []
   \<and> requestTimestamps (fst (analyze_all example_cfg initial_hive failing_calls)) = []
   \<and> clock_monotone 0 answered_then_garbled
   \<and> length (posts (snd (analyze_all example_cfg initial_hive answered_then_garbled))) = 19
   \<and> length (recorded (snd (analyze_all example_cfg initial_hive answered_then_garbled))) = 19
   \<and> length (in_window 0
        (requestTimestamps (fst (analyze_all example_cfg initial_hive answered_then_garbled)))) = 19"
proof -
  have m1: "clock_monotone 0 failing_calls"
    by (simp add: failing_calls_def failing_net_def del: One_nat_def)
  have m2: "clock_monotone 0 answered_then_garbled"
    unfolding answered_then_garbled_def by (rule monotone_answered)
  have run: "analyze_all example_cfg initial_hive failing_calls =
     (initial_hive, concat (map (\<lambda>t. [LimiterCheck t, Post 1, Wait 1000, Post 2])
         [0, 3000, 6000, 9000, 12000, 15000, 18000, 21000, 24000, 27000]))"
    unfolding failing_calls_def by (rule failing_run)
  have p1: "length (posts (snd (analyze_all example_cfg initial_hive failing_calls))) = 20"
    unfolding run by (simp del: One_nat_def)
  have r1: "recorded (snd (analyze_all example_cfg initial_hive failing_calls)) = []"
    unfolding run by (simp del: One_nat_def)
  have t1: "requestTimestamps (fst (analyze_all example_cfg initial_hive failing_calls)) = []"
    unfolding run by (simp add: initial_hive_def)
  have p2: "length (posts (snd (analyze_all example_cfg initial_hive answered_then_garbled))) = 19"
    unfolding answered_then_garbled_run snd_conv posts_append posts_answered
    by (simp del: One_nat_def)
  have r2: "length (recorded (snd (analyze_all example_cfg initial_hive answered_then_garbled))) = 19"
    unfolding answered_then_garbled_run snd_conv recorded_append recorded_answered
    by (simp del: One_nat_def)
  have t2: "length (in_window 0
        (requestTimestamps (fst (analyze_all example_cfg initial_hive answered_then_garbled)))) = 19"
    unfolding answered_then_garbled_run fst_conv by (simp add: in_window_def)
  show ?thesis
    using m1 m2 run p1 r1 t1 p2 r2 t2 by simp
qed

theorem C1_requests_not_counted_witness:
  "maxRequestsPerMinute < length (posts (snd (analyze_all example_cfg initial_hive failing_calls)))
   \<and> maxRequestsPerMinute < length (in_window 0
        (requestTimestamps (fst (analyze_all example_cfg initial_hive answered_then_garbled))))"
  using C1_requests_not_counted by (simp add: maxRequestsPerMinute_def)

section \<open>Handling an alert\<close>

lemma no_mitigation_in_sent:
  "\<not> mitigation_invoked (if c then [SendAlert threat] else [])"
  by (cases c) (simp_all add: mitigation_invoked_def)

lemma handleThreat_mitigates:
  assumes "valid_date (alert_timestamp threat)"
    and "mitigation_enabled cfg \<and> severity threat = critical \<and> confidence threat > 0.8"
  shows "handleThreat cfg threat =
           Inr (threat\<lparr> mitigated := True \<rparr>,
                [SendAlert threat, Mitigation threat]
                @ (if autoFreeze cfg then [FreezeAction] else [])
                @ (if emergencyPause cfg then [PauseAction] else [])
                @ [SendAlert (threat\<lparr> mitigated := True \<rparr>)])"
  using assms by (simp add: handleThreat_def executeMitigation_def Let_def)

lemma handleThreat_plain:
  assumes "valid_date (alert_timestamp threat)"
    and "\<not> (mitigation_enabled cfg \<and> severity threat = critical \<and> confidence threat > 0.8)"
  shows "handleThreat cfg threat =
           Inr (threat, (if severity threat = medium \<or> severity threat = high
                            \<or> severity threat = critical
                         then [SendAlert threat] else []))"
  using assms by (auto simp: handleThreat_def Let_def)

text \<open>
  Claim C7. For every alert that \<open>handleThreat\<close> handles (the call returns, which it
  does exactly when the timestamp of the alert is a valid date for its first log line),
  the mitigation hook is invoked exactly when mitigation is enabled, the severity is
  \<open>critical\<close> and the confidence exceeds 0.8; in particular it is never invoked for
  severity \<open>high\<close>. When it is invoked, the \<open>mitigated\<close> flag of the alert is set and the
  alert, with the flag set, is dispatched to the notification channels again as the last
  step.
\<close>

theorem C7_mitigation:
  assumes "handleThreat cfg threat = Inr (threat', ev)"
  shows "mitigation_invoked ev =
           (mitigation_enabled cfg \<and> severity threat = critical \<and> confidence threat > 0.8)
         \<and> (severity threat = high \<longrightarrow> \<not> mitigation_invoked ev)
         \<and> (mitigation_invoked ev \<longrightarrow>
              threat' = threat\<lparr> mitigated := True \<rparr> \<and> mitigated threat'
              \<and> ev \<noteq> [] \<and> last ev = SendAlert threat'
              \<and> hd ev = SendAlert threat)
         \<and> (\<not> mitigation_invoked ev \<longrightarrow> threat' = threat)
         \<and> valid_date (alert_timestamp threat)"
proof -
  have v: "valid_date (alert_timestamp threat)"
    using assms by (cases "valid_date (alert_timestamp threat)") (simp_all add: handleThreat_def)
  show ?thesis
  proof (cases "mitigation_enabled cfg \<and> severity threat = critical \<and> confidence threat > 0.8")
    case True
    have e: "threat' = threat\<lparr> mitigated := True \<rparr>"
      "ev = [SendAlert threat, Mitigation threat]
                @ (if autoFreeze cfg then [FreezeAction] else [])
                @ (if emergencyPause cfg then [PauseAction] else [])
                @ [SendAlert (threat\<lparr> mitigated := True \<rparr>)]"
      using assms handleThreat_mitigates[OF v True] by auto
    have m: "mitigation_invoked ev"
      unfolding e by (simp add: mitigation_invoked_def)
    have l: "last ev = SendAlert threat'" "hd ev = SendAlert threat" "ev \<noteq> []"
      unfolding e by simp_all
    show ?thesis using True v m l e(1) by simp
  next
    case False
    have e: "threat' = threat"
      "ev = (if severity threat = medium \<or> severity threat = high \<or> severity threat = critical
             then [SendAlert threat] else [])"
      using assms handleThreat_plain[OF v False] by auto
    have m: "\<not> mitigation_invoked ev"
      unfolding e by (rule no_mitigation_in_sent)
    show ?thesis using False v m e(1) by simp
  qed
qed

theorem C7_mitigation_witness:
  "handleThreat example_cfg (example_alert critical 0.9) =
     Inr ((example_alert critical 0.9)\<lparr> mitigated := True \<rparr>,
          [SendAlert (example_alert critical 0.9), Mitigation (example_alert critical 0.9),
           SendAlert ((example_alert critical 0.9)\<lparr> mitigated := True \<rparr>)])
   \<and> mitigation_invoked
        [SendAlert (example_alert critical 0.9), Mitigation (example_alert critical 0.9),
         SendAlert ((example_alert critical 0.9)\<lparr> mitigated := True \<rparr>)]
   \<and> handleThreat example_cfg (example_alert high 0.99) =
        Inr (example_alert high 0.99, [SendAlert (example_alert high 0.99)])
   \<and> \<not> mitigation_invoked [SendAlert (example_alert high 0.99)]"
proof -
  have v: "valid_date (alert_timestamp (example_alert s c))" for s c
    by (simp add: valid_date_def example_alert_def)
  have c: "mitigation_enabled example_cfg" "\<not> autoFreeze example_cfg" "\<not> emergencyPause example_cfg"
    by (simp_all add: example_cfg_def)
  have s: "severity (example_alert s c) = s" "confidence (example_alert s c) = c" for s c
    by (simp_all add: example_alert_def)
  have h1: "handleThreat example_cfg (example_alert critical 0.9) =
     Inr ((example_alert critical 0.9)\<lparr> mitigated := True \<rparr>,
          [SendAlert (example_alert critical 0.9), Mitigation (example_alert critical 0.9),
           SendAlert ((example_alert critical 0.9)\<lparr> mitigated := True \<rparr>)])"
    using handleThreat_mitigates[OF v, of example_cfg critical "0.9"] c s by simp
  have h2: "handleThreat example_cfg (example_alert high 0.99) =
        Inr (example_alert high 0.99, [SendAlert (example_alert high 0.99)])"
    using handleThreat_plain[OF v, of example_cfg high "0.99"] c s by simp
  show ?thesis
    using C7_mitigation[OF h1] C7_mitigation[OF h2] h1 h2 c s by simp
qed

section \<open>The generic fallback alert\<close>

lemma overall_risk_values:
  "extractOverallRisk response = 0.8 \<or> extractOverallRisk response = 0.5
   \<or> extractOverallRisk response = 0.2 \<or> extractOverallRisk response = 0.3"
  by (simp add: extractOverallRisk_def)

lemma overall_risk_parse: "overallRisk (parse_text raw sources) = extractOverallRisk (toLowerCase raw)"
  by (simp add: parse_text_def Let_def)

lemma category_alert_id: "fst (alert_id (category_alert name ty sev tx now a info)) = name"
  by (simp add: category_alert_def)


lemma alerts_of_Nil: "alerts_of n [] = []"
  by (simp add: alerts_of_def)

lemma alerts_of_if:
  "alerts_of n (if c then [x] else []) = (if c \<and> fst (alert_id x) = n then [x] else [])"
  by (cases c) (simp_all add: alerts_of_def)

lemma mem_if_single: "(y \<in> set (if c then [x] else [])) = (c \<and> y = x)"
  by (cases c) simp_all

lemma fallback_alert:
  assumes "x \<in> set (alerts_of ''hive_suspicious'' (processHiveThreats tx clock a))"
  shows "severity x = (if overallRisk a > 0.8 then high else medium)
         \<and> alert_type x = suspicious_pattern \<and> overallRisk a > 0.7"
proof -
  let ?r = "case rugPull a of None \<Rightarrow> [] | Some info \<Rightarrow>
              if risk info > 0.5 then
                [category_alert ''hive_rug_pull'' rug_pull
                   (if risk info > 0.8 then critical else high) tx (clock 0) a info]
              else []"
  let ?f = "case flashLoan a of None \<Rightarrow> [] | Some info \<Rightarrow>
              if risk info > 0.6 then
                [category_alert ''hive_flash_loan'' flash_loan_attack
                   (if risk info > 0.8 then critical else high) tx (clock 1) a info]
              else []"
  let ?m = "case mev a of None \<Rightarrow> [] | Some info \<Rightarrow>
              if risk info > 0.6 then
                [category_alert ''hive_mev'' mev_attack
                   (if risk info > 0.8 then high else medium) tx (clock 2) a info]
              else []"
  have r: "alerts_of ''hive_suspicious'' ?r = []"
    by (cases "rugPull a") (simp_all add: alerts_of_Nil alerts_of_if category_alert_id)
  have f: "alerts_of ''hive_suspicious'' ?f = []"
    by (cases "flashLoan a") (simp_all add: alerts_of_Nil alerts_of_if category_alert_id)
  have m: "alerts_of ''hive_suspicious'' ?m = []"
    by (cases "mev a") (simp_all add: alerts_of_Nil alerts_of_if category_alert_id)
  show ?thesis
    using assms unfolding processHiveThreats_def Let_def alerts_of_append r f m alerts_of_if
    by (simp add: mem_if_single)
qed

text \<open>
  Claim C10. The overall-risk extractor returns one of 0.2, 0.3, 0.5 and 0.8. Every
  generic fallback alert (identifier \<open>hive_suspicious\<close>, type \<open>suspicious_pattern\<close>)
  that a call produces from the enrichment of a transaction has severity \<open>medium\<close>, and
  the overall risk of the analysis it comes from is 0.8: the gate of the fallback asks
  for more than 0.7, and its \<open>high\<close> branch asks for more than 0.8, which a parsed
  answer never has.
\<close>

theorem C10_fallback_medium:
  "extractOverallRisk response \<in> {0.2, 0.3, 0.5, 0.8}
   \<and> (\<forall>x \<in> set (alerts_of ''hive_suspicious''
                   (processHiveThreats tx hive_clock (parse_text raw sources))).
         severity x = medium \<and> alert_type x = suspicious_pattern
         \<and> overallRisk (parse_text raw sources) = 0.8)
   \<and> (\<forall>x \<in> set (alerts_of ''hive_suspicious''
                   (fst (analyzeThreatPatterns cfg clock now net hive_clock st tx))).
         severity x = medium \<and> alert_type x = suspicious_pattern)"
proof -
  have range: "extractOverallRisk response \<in> {0.2, 0.3, 0.5, 0.8}"
    using overall_risk_values[of response] by auto
  have parsed: "severity x = medium \<and> alert_type x = suspicious_pattern
         \<and> overallRisk (parse_text raw' sources') = 0.8"
    if "x \<in> set (alerts_of ''hive_suspicious''
                   (processHiveThreats tx hive_clock (parse_text raw' sources')))"
    for x raw' sources'
  proof -
    have a: "severity x = (if overallRisk (parse_text raw' sources') > 0.8 then high else medium)"
      "alert_type x = suspicious_pattern" "overallRisk (parse_text raw' sources') > 0.7"
      using fallback_alert[OF that] by simp_all
    have "overallRisk (parse_text raw' sources') = 0.8"
      using a(3) overall_risk_values[of "toLowerCase raw'"] by (auto simp: overall_risk_parse)
    then show ?thesis using a by simp
  qed
  have local: "alerts_of ''hive_suspicious'' (fst (detectThreats cfg clock (fst st) tx)) = []"
    by (simp add: detectThreats_def Let_def alerts_of_detectors)
  have pipeline: "severity x = medium \<and> alert_type x = suspicious_pattern"
    if x: "x \<in> set (alerts_of ''hive_suspicious''
                   (fst (analyzeThreatPatterns cfg clock now net hive_clock st tx)))" for x
  proof (cases "fst (analyzeTransaction cfg tx now net (snd st))")
    case (Inl e)
    then have "fst (analyzeThreatPatterns cfg clock now net hive_clock st tx)
                 = fst (detectThreats cfg clock (fst st) tx)"
      by (simp add: analyzeThreatPatterns_def case_prod_beta split: prod.splits)
    with x local show ?thesis by simp
  next
    case (Inr r)
    show ?thesis
    proof (cases r)
      case None
      with Inr have "fst (analyzeThreatPatterns cfg clock now net hive_clock st tx)
                 = fst (detectThreats cfg clock (fst st) tx)"
        by (simp add: analyzeThreatPatterns_def case_prod_beta split: prod.splits)
      with x local show ?thesis by simp
    next
      case (Some a)
      with Inr have out: "fst (analyzeThreatPatterns cfg clock now net hive_clock st tx)
                 = fst (detectThreats cfg clock (fst st) tx) @ processHiveThreats tx hive_clock a"
        by (simp add: analyzeThreatPatterns_def case_prod_beta split: prod.splits)
      obtain raw' sources' where "a = parse_text raw' sources'"
      proof (cases rule: analyze_cases[of cfg tx now net "snd st"])
        case disabled
        with Inr Some show ?thesis by simp
      next
        case skipped
        with Inr Some show ?thesis by simp
      next
        case requested
        with Inr Some have "fst (retry_loop tx net 1 (snd (canMakeRequest now (snd st)))) = Some a"
          by simp
        then show ?thesis using retry_some_1 that by blast
      qed
      with x out local show ?thesis using parsed by (simp add: alerts_of_append)
    qed
  qed
  show ?thesis using range parsed pipeline by blast
qed

theorem C10_fallback_medium_witness:
  "(\<exists>x. alerts_of ''hive_suspicious''
          (processHiveThreats plain_tx (\<lambda>i. 0) (parse_text ''High risk transaction'' None)) = [x]
        \<and> severity x = medium \<and> overallRisk (parse_text ''High risk transaction'' None) = 0.8)"
proof -
  have lower: "toLowerCase ''High risk transaction'' = ''high risk transaction''"
    by (simp add: toLowerCase_def lower_char_def)
  have k: "str_includes ''high risk transaction'' ''high risk''"
    "\<not> str_includes ''high risk transaction'' ''rug pull''"
    "\<not> str_includes ''high risk transaction'' ''exit scam''"
    "\<not> str_includes ''high risk transaction'' ''flash loan''"
    "\<not> str_includes ''high risk transaction'' ''arbitrage''"
    "\<not> str_includes ''high risk transaction'' ''mev''"
    "\<not> str_includes ''high risk transaction'' ''front-running''"
    "\<not> str_includes ''high risk transaction'' ''sandwich''"
    by simp_all
  have p: "rugPull (parse_text ''High risk transaction'' None) = None"
    "flashLoan (parse_text ''High risk transaction'' None) = None"
    "mev (parse_text ''High risk transaction'' None) = None"
    "overallRisk (parse_text ''High risk transaction'' None) = 0.8"
    by (simp_all add: parse_text_def Let_def lower k extractOverallRisk_def)
  obtain x where x: "alerts_of ''hive_suspicious''
          (processHiveThreats plain_tx (\<lambda>i. 0) (parse_text ''High risk transaction'' None)) = [x]"
    by (simp add: processHiveThreats_def Let_def p alerts_of_def)
  then have "x \<in> set (alerts_of ''hive_suspicious''
          (processHiveThreats plain_tx (\<lambda>i. 0) (parse_text ''High risk transaction'' None)))"
    by simp
  then have "severity x = medium \<and> overallRisk (parse_text ''High risk transaction'' None) = 0.8"
    using C10_fallback_medium[of "''x''" plain_tx "\<lambda>i. 0" "''High risk transaction''" None]
    by blast
  with x show ?thesis by blast
qed

end
